theory Spec2Isabelle
  imports Main "HOL-Library.AList"
begin

section \<open>Reply correlation in ExpoWatchConnectivityModule (iOS)\<close>

text \<open>
  The Swift class \<open>ExpoWatchConnectivityModule\<close> keeps two dictionaries of pending
  reply handlers, keyed by a UUID string, and guards them with one \<open>NSLock\<close>:
  \<^verbatim>\<open>
  private var pendingMessageReplies: [String: ([String: Any]) -> Void] = [:]
  private var pendingDataReplies: [String: (Data) -> Void] = [:]
  private let replyLock = NSLock()
  \<close>
  This theory embeds the four functions that touch them (\<open>dispatchMessageReceived\<close>,
  \<open>dispatchMessageDataReceived\<close>, \<open>replyToMessage\<close>, \<open>replyToMessageData\<close>) and the
  expiry blocks they hand to \<open>DispatchQueue.main.asyncAfter\<close>.
\<close>

subsection \<open>Data\<close>

text \<open>Values of Swift's \<open>Any\<close> as they cross the bridge; \<open>[String: Any]\<close> is an
  association list read with \<open>map_of\<close> and written with \<open>AList.update\<close>.\<close>

datatype any =
    AnyNull
  | AnyBool bool
  | AnyNumber int
  | AnyString string
  | AnyArray "any list"
  | AnyDict "(string \<times> any) list"

type_synonym dict = "(string \<times> any) list"

text \<open>\<open>Data\<close> is a sequence of bytes (each below 256).\<close>

type_synonym data = "nat list"

text \<open>
  A reply handler is a closure supplied by WCSession. Its body is outside the module, so
  a handler is represented by its identity and a call of it is recorded, with its
  argument, in the log \<open>invoked\<close>.
\<close>

type_synonym handler = nat

datatype invocation =
    MessageReply handler dict
  | DataReply handler data

text \<open>The two blocks given to \<open>asyncAfter\<close>; each captures the reply id.\<close>

datatype expiry =
    ExpireMessageReply string
  | ExpireDataReply string

text \<open>
  The module's state. \<open>timers\<close> holds the blocks scheduled on the main queue that have
  not run yet, each with its deadline; \<open>now\<close> is the clock, in milliseconds; \<open>events\<close>
  is what \<open>sendEvent\<close> has emitted so far.
\<close>

record module_state =
  pendingMessageReplies :: "string \<rightharpoonup> handler"
  pendingDataReplies :: "string \<rightharpoonup> handler"
  invoked :: "invocation list"
  events :: "(string \<times> dict) list"
  timers :: "(nat \<times> expiry) list"
  now :: nat

definition initial :: module_state where
  "initial = \<lparr> pendingMessageReplies = Map.empty, pendingDataReplies = Map.empty,
      invoked = [], events = [], timers = [], now = 0 \<rparr>"

subsection \<open>Library operations used by the module\<close>

text \<open>\<open>Dictionary.removeValue(forKey:)\<close>: the removed value, or nil, and the dictionary
  without the key.\<close>

definition removeValue :: "'k \<Rightarrow> ('k \<rightharpoonup> 'v) \<Rightarrow> 'v option \<times> ('k \<rightharpoonup> 'v)" where
  "removeValue k m = (m k, m(k := None))"

definition sendEvent :: "string \<Rightarrow> dict \<Rightarrow> module_state \<Rightarrow> module_state" where
  "sendEvent name payload s = s\<lparr>events := events s @ [(name, payload)]\<rparr>"

text \<open>\<open>DispatchQueue.main.asyncAfter(deadline: .now() + seconds)\<close>: the block is queued
  with the deadline \<open>now + seconds\<close>.\<close>

definition asyncAfter :: "nat \<Rightarrow> expiry \<Rightarrow> module_state \<Rightarrow> module_state" where
  "asyncAfter seconds block s = s\<lparr>timers := timers s @ [(now s + seconds * 1000, block)]\<rparr>"

subsection \<open>Reply handling\<close>

text \<open>
  \<^verbatim>\<open>
  Function("replyToMessage") { (replyId: String, reply: [String: Any]) in
    self.replyLock.lock()
    defer { self.replyLock.unlock() }
    if let handler = self.pendingMessageReplies.removeValue(forKey: replyId) {
      handler(reply)
    }
  }
  \<close>
  The Swift closure returns nothing. The model returns, beside the new state, whether the
  \<open>if let\<close> bound a handler: the boolean the specification calls \<open>consumed\<close>.
\<close>

definition replyToMessage :: "string \<Rightarrow> dict \<Rightarrow> module_state \<Rightarrow> bool \<times> module_state" where
  "replyToMessage replyId reply s =
     (case removeValue replyId (pendingMessageReplies s) of
        (Some handler, rest) \<Rightarrow>
          (True, s\<lparr>pendingMessageReplies := rest,
                    invoked := invoked s @ [MessageReply handler reply]\<rparr>)
      | (None, rest) \<Rightarrow> (False, s\<lparr>pendingMessageReplies := rest\<rparr>))"

text \<open>
  \<^verbatim>\<open>
  Function("replyToMessageData") { (replyId: String, base64Data: String) in
    self.replyLock.lock()
    defer { self.replyLock.unlock() }
    guard let data = Data(base64Encoded: base64Data) else { return }
    if let handler = self.pendingDataReplies.removeValue(forKey: replyId) {
      handler(data)
    }
  }
  \<close>
  \<open>Data(base64Encoded:)\<close> belongs to Foundation; it is the parameter \<open>decode\<close>.
\<close>

definition replyToMessageData ::
  "(string \<Rightarrow> data option) \<Rightarrow> string \<Rightarrow> string \<Rightarrow> module_state \<Rightarrow> bool \<times> module_state" where
  "replyToMessageData decode replyId base64Data s =
     (case decode base64Data of
        None \<Rightarrow> (False, s)
      | Some bytes \<Rightarrow>
          (case removeValue replyId (pendingDataReplies s) of
             (Some handler, rest) \<Rightarrow>
               (True, s\<lparr>pendingDataReplies := rest,
                         invoked := invoked s @ [DataReply handler bytes]\<rparr>)
           | (None, rest) \<Rightarrow> (False, s\<lparr>pendingDataReplies := rest\<rparr>)))"

subsection \<open>Inbound messages\<close>

text \<open>
  \<^verbatim>\<open>
  func dispatchMessageReceived(_ message: [String: Any],
                               replyHandler: (([String: Any]) -> Void)?) {
    var payload: [String: Any] = ["message": message]
    if let handler = replyHandler {
      let replyId = UUID().uuidString
      replyLock.lock()
      pendingMessageReplies[replyId] = handler
      replyLock.unlock()
      payload["replyId"] = replyId
      // Auto-expire reply after 30 seconds
      DispatchQueue.main.asyncAfter(deadline: .now() + 30) { [weak self] in
        self?.replyLock.lock()
        self?.pendingMessageReplies.removeValue(forKey: replyId)
        self?.replyLock.unlock()
      }
    }
    sendEvent("onMessageReceived", payload)
  }
  \<close>
  \<open>UUID().uuidString\<close> is drawn from the system's generator: the argument \<open>uuid\<close> is the
  string that call yields (it is not consulted when there is no reply handler).
\<close>

definition dispatchMessageReceived ::
  "dict \<Rightarrow> handler option \<Rightarrow> string \<Rightarrow> module_state \<Rightarrow> module_state" where
  "dispatchMessageReceived message replyHandler uuid s =
     (case replyHandler of
        None \<Rightarrow> sendEvent ''onMessageReceived'' [(''message'', AnyDict message)] s
      | Some handler \<Rightarrow>
          (let replyId = uuid;
               s1 = s\<lparr>pendingMessageReplies := (pendingMessageReplies s)(replyId \<mapsto> handler)\<rparr>;
               payload = AList.update ''replyId'' (AnyString replyId)
                           [(''message'', AnyDict message)];
               s2 = asyncAfter 30 (ExpireMessageReply replyId) s1
           in sendEvent ''onMessageReceived'' payload s2))"

text \<open>
  \<open>dispatchMessageDataReceived\<close> is the same code on \<open>pendingDataReplies\<close>, with the
  payload \<open>["data": data.base64EncodedString()]\<close>; the Foundation encoder is the
  parameter \<open>encode\<close>.
\<close>

definition dispatchMessageDataReceived ::
  "(data \<Rightarrow> string) \<Rightarrow> data \<Rightarrow> handler option \<Rightarrow> string \<Rightarrow> module_state \<Rightarrow> module_state" where
  "dispatchMessageDataReceived encode bytes replyHandler uuid s =
     (case replyHandler of
        None \<Rightarrow> sendEvent ''onMessageDataReceived'' [(''data'', AnyString (encode bytes))] s
      | Some handler \<Rightarrow>
          (let replyId = uuid;
               s1 = s\<lparr>pendingDataReplies := (pendingDataReplies s)(replyId \<mapsto> handler)\<rparr>;
               payload = AList.update ''replyId'' (AnyString replyId)
                           [(''data'', AnyString (encode bytes))];
               s2 = asyncAfter 30 (ExpireDataReply replyId) s1
           in sendEvent ''onMessageDataReceived'' payload s2))"

subsection \<open>Expiry\<close>

text \<open>The body of an expiry block: under the lock, remove the reply id from the
  dictionary of its kind; the removed handler is dropped.\<close>

fun runExpiry :: "expiry \<Rightarrow> module_state \<Rightarrow> module_state" where
  "runExpiry (ExpireMessageReply replyId) s =
     s\<lparr>pendingMessageReplies := snd (removeValue replyId (pendingMessageReplies s))\<rparr>"
| "runExpiry (ExpireDataReply replyId) s =
     s\<lparr>pendingDataReplies := snd (removeValue replyId (pendingDataReplies s))\<rparr>"

text \<open>
  Whether the body of an expiry block finds its key (the result of \<open>removeValue\<close>, which
  the block discards).
\<close>

fun found :: "expiry \<Rightarrow> module_state \<Rightarrow> bool" where
  "found (ExpireMessageReply replyId) s =
     (case fst (removeValue replyId (pendingMessageReplies s)) of None \<Rightarrow> False | Some h \<Rightarrow> True)"
| "found (ExpireDataReply replyId) s =
     (case fst (removeValue replyId (pendingDataReplies s)) of None \<Rightarrow> False | Some h \<Rightarrow> True)"

text \<open>
  Time and the main queue are separate. \<open>tick\<close> lets the clock reach \<open>t\<close> and does
  nothing else. \<open>runBlock\<close> is the main queue running one queued block: GCD runs a block
  given to \<open>asyncAfter\<close> at some moment not before its deadline, so the block must be
  queued and its deadline must have been reached; it leaves the queue and its body runs.
  Nothing forces a due block to run at once: a state in which the clock has passed a
  deadline and the block is still queued is an ordinary state.
\<close>

definition due :: "nat \<Rightarrow> nat \<times> expiry \<Rightarrow> bool" where
  "due t entry = (fst entry \<le> t)"

definition tick :: "nat \<Rightarrow> module_state \<Rightarrow> module_state" where
  "tick t s = s\<lparr>now := max (now s) t\<rparr>"

definition runBlock :: "nat \<times> expiry \<Rightarrow> module_state \<Rightarrow> module_state" where
  "runBlock entry s =
     (if entry \<in> set (timers s) \<and> due (now s) entry
      then runExpiry (snd entry) (s\<lparr>timers := remove1 entry (timers s)\<rparr>)
      else s)"

subsection \<open>Runs of the module\<close>

text \<open>
  What can happen to the module: WCSession delivers a message or a data blob (with or
  without a reply handler; \<open>uuid\<close> is what \<open>UUID().uuidString\<close> yields should it be
  called), the application replies, the clock moves on, or the main queue runs a block.
\<close>

datatype action =
    DidReceiveMessage dict "handler option" string
  | DidReceiveMessageData data "handler option" string
  | ReplyToMessage string dict
  | ReplyToMessageData string string
  | ClockReaches nat
  | MainQueueRuns "nat \<times> expiry"

fun perform ::
  "(string \<Rightarrow> data option) \<Rightarrow> (data \<Rightarrow> string) \<Rightarrow> action \<Rightarrow> module_state \<Rightarrow> module_state" where
  "perform decode encode (DidReceiveMessage message replyHandler uuid) s =
     dispatchMessageReceived message replyHandler uuid s"
| "perform decode encode (DidReceiveMessageData bytes replyHandler uuid) s =
     dispatchMessageDataReceived encode bytes replyHandler uuid s"
| "perform decode encode (ReplyToMessage replyId reply) s = snd (replyToMessage replyId reply s)"
| "perform decode encode (ReplyToMessageData replyId base64Data) s =
     snd (replyToMessageData decode replyId base64Data s)"
| "perform decode encode (ClockReaches t) s = tick t s"
| "perform decode encode (MainQueueRuns entry) s = runBlock entry s"

definition run ::
  "(string \<Rightarrow> data option) \<Rightarrow> (data \<Rightarrow> string) \<Rightarrow> action list \<Rightarrow> module_state \<Rightarrow> module_state" where
  "run decode encode acts s = fold (perform decode encode) acts s"





subsection \<open>Threads and \<open>replyLock\<close>\<close>

text \<open>
  \<open>replyToMessage\<close> is called on the JavaScript thread; the expiry block runs on the
  main queue. Each is a sequence of statements, and two threads interleave statement by
  statement:
  \<^verbatim>\<open>
  replyToMessage(replyId, reply)            expiry block for replyId
    replyLock.lock()                          replyLock.lock()
    handler = removeValue(forKey: replyId)    removeValue(forKey: replyId)
    if let handler { handler(reply) }         replyLock.unlock()
    replyLock.unlock()        // deferred
  \<close>
  \<open>removed\<close> is what the thread's \<open>removeValue\<close> returned (the \<open>handler\<close> binding; the
  expiry block discards it).
\<close>

datatype who = JS | Main

datatype statement =
    Lock
  | RemoveMessage string
  | RemoveData string
  | CallMessage dict
  | CallData data
  | Unlock

record thread =
  todo :: "statement list"
  removed :: "handler option"

record system =
  shared :: module_state
  holder :: "who option"
  js :: thread
  main :: thread

definition replyStatements :: "string \<Rightarrow> dict \<Rightarrow> statement list" where
  "replyStatements replyId reply = [Lock, RemoveMessage replyId, CallMessage reply, Unlock]"

text \<open>In \<open>replyToMessageData\<close> the \<open>guard\<close> leaves the function (through the deferred
  unlock) when the string does not decode.\<close>

definition replyDataStatements ::
  "(string \<Rightarrow> data option) \<Rightarrow> string \<Rightarrow> string \<Rightarrow> statement list" where
  "replyDataStatements decode replyId base64Data =
     (case decode base64Data of
        None \<Rightarrow> [Lock, Unlock]
      | Some bytes \<Rightarrow> [Lock, RemoveData replyId, CallData bytes, Unlock])"

fun expiryStatements :: "expiry \<Rightarrow> statement list" where
  "expiryStatements (ExpireMessageReply replyId) = [Lock, RemoveMessage replyId, Unlock]"
| "expiryStatements (ExpireDataReply replyId) = [Lock, RemoveData replyId, Unlock]"

definition start :: "module_state \<Rightarrow> statement list \<Rightarrow> statement list \<Rightarrow> system" where
  "start s onJS onMain =
     \<lparr>shared = s, holder = None,
      js = \<lparr>todo = onJS, removed = None\<rparr>, main = \<lparr>todo = onMain, removed = None\<rparr>\<rparr>"

text \<open>
  One statement of thread \<open>w\<close>, whose local binding is \<open>r\<close>. \<open>NSLock.lock()\<close> blocks
  while another thread holds the lock: the statement cannot be executed then (\<open>None\<close>).
\<close>

fun execute ::
  "who \<Rightarrow> statement \<Rightarrow> module_state \<times> who option \<times> handler option \<Rightarrow>
     (module_state \<times> who option \<times> handler option) option" where
  "execute w Lock (s, l, r) = (case l of None \<Rightarrow> Some (s, Some w, r) | Some other \<Rightarrow> None)"
| "execute w Unlock (s, l, r) = Some (s, None, r)"
| "execute w (RemoveMessage replyId) (s, l, r) =
     (case removeValue replyId (pendingMessageReplies s) of
        (binding, rest) \<Rightarrow> Some (s\<lparr>pendingMessageReplies := rest\<rparr>, l, binding))"
| "execute w (RemoveData replyId) (s, l, r) =
     (case removeValue replyId (pendingDataReplies s) of
        (binding, rest) \<Rightarrow> Some (s\<lparr>pendingDataReplies := rest\<rparr>, l, binding))"
| "execute w (CallMessage reply) (s, l, r) =
     (case r of
        None \<Rightarrow> Some (s, l, r)
      | Some handler \<Rightarrow> Some (s\<lparr>invoked := invoked s @ [MessageReply handler reply]\<rparr>, l, r))"
| "execute w (CallData bytes) (s, l, r) =
     (case r of
        None \<Rightarrow> Some (s, l, r)
      | Some handler \<Rightarrow> Some (s\<lparr>invoked := invoked s @ [DataReply handler bytes]\<rparr>, l, r))"

fun threadOf :: "who \<Rightarrow> system \<Rightarrow> thread" where
  "threadOf JS c = js c"
| "threadOf Main c = main c"

fun setThread :: "who \<Rightarrow> thread \<Rightarrow> system \<Rightarrow> system" where
  "setThread JS t c = c\<lparr>js := t\<rparr>"
| "setThread Main t c = c\<lparr>main := t\<rparr>"

text \<open>The scheduler lets thread \<open>w\<close> execute its next statement; \<open>None\<close> when the thread
  has finished or is blocked.\<close>

definition step :: "who \<Rightarrow> system \<Rightarrow> system option" where
  "step w c =
     (case todo (threadOf w c) of
        [] \<Rightarrow> None
      | st # rest \<Rightarrow>
          (case execute w st (shared c, holder c, removed (threadOf w c)) of
             None \<Rightarrow> None
           | Some (s, l, r) \<Rightarrow>
               Some (setThread w \<lparr>todo = rest, removed = r\<rparr> (c\<lparr>shared := s, holder := l\<rparr>))))"

fun exec :: "who list \<Rightarrow> system \<Rightarrow> system option" where
  "exec [] c = Some c"
| "exec (w # ws) c = (case step w c of None \<Rightarrow> None | Some c' \<Rightarrow> exec ws c')"

definition finished :: "system \<Rightarrow> bool" where
  "finished c = (todo (js c) = [] \<and> todo (main c) = [])"

text \<open>A thread is in its critical section when it has statements left and the next one
  is not \<open>lock()\<close>.\<close>

definition inCritical :: "thread \<Rightarrow> bool" where
  "inCritical t = (case todo t of [] \<Rightarrow> False | st # rest \<Rightarrow> st \<noteq> Lock)"

text \<open>Every system reachable in at most \<open>n\<close> scheduling steps; used to go through all
  schedules. \<open>remaining\<close> bounds the length of a schedule.\<close>

definition successors :: "system \<Rightarrow> system list" where
  "successors c = List.map_filter (\<lambda>w. step w c) [JS, Main]"

fun explore :: "nat \<Rightarrow> system \<Rightarrow> system list" where
  "explore 0 c = [c]"
| "explore (Suc n) c = c # concat (map (explore n) (successors c))"

definition remaining :: "system \<Rightarrow> nat" where
  "remaining c = length (todo (js c)) + length (todo (main c))"

subsection \<open>Teardown\<close>

text \<open>
  Modelled from the spec: \<open>cancelAll()\<close>, which the Swift module does not have (the
  specification adds it: "Removes all entries, cancelling their timers, without invoking
  any callback", clearing the map under the same lock). The timers of an entry are the
  queued expiry blocks for its id in its dictionary.
\<close>

definition cancelAll :: "module_state \<Rightarrow> module_state" where
  "cancelAll s =
     s\<lparr>pendingMessageReplies := Map.empty,
       pendingDataReplies := Map.empty,
       timers := filter (\<lambda>entry. \<not> found (snd entry) s) (timers s)\<rparr>"

subsection \<open>Base64, for concrete runs\<close>

text \<open>
  The module takes Foundation's \<open>Data(base64Encoded:)\<close> and \<open>base64EncodedString()\<close> as
  given. For evaluating the module on concrete inputs, the standard encoding (RFC 4648,
  with padding, no line breaks) is written out here.
\<close>

definition base64Alphabet :: string where
  "base64Alphabet = ''ABCDEFGHIJKLMNOPQRSTUVWXYZabcdefghijklmnopqrstuvwxyz0123456789+/''"

fun indexOf :: "'a \<Rightarrow> 'a list \<Rightarrow> nat option" where
  "indexOf x [] = None"
| "indexOf x (y # ys) = (if x = y then Some 0 else map_option Suc (indexOf x ys))"

definition sextet :: "char \<Rightarrow> nat option" where
  "sextet c = indexOf c base64Alphabet"

definition quantum :: "nat \<Rightarrow> nat \<Rightarrow> nat \<Rightarrow> nat \<Rightarrow> data" where
  "quantum a b c d =
     (let n = ((a * 64 + b) * 64 + c) * 64 + d
      in [n div 65536, n div 256 mod 256, n mod 256])"

fun base64Decode :: "string \<Rightarrow> data option" where
  "base64Decode [] = Some []"
| "base64Decode [a, b, c, d] =
     (if c = CHR ''='' \<and> d = CHR ''='' then
        (case (sextet a, sextet b) of
           (Some w, Some x) \<Rightarrow> Some (take 1 (quantum w x 0 0))
         | _ \<Rightarrow> None)
      else if d = CHR ''='' then
        (case (sextet a, sextet b, sextet c) of
           (Some w, Some x, Some y) \<Rightarrow> Some (take 2 (quantum w x y 0))
         | _ \<Rightarrow> None)
      else
        (case (sextet a, sextet b, sextet c, sextet d) of
           (Some w, Some x, Some y, Some z) \<Rightarrow> Some (quantum w x y z)
         | _ \<Rightarrow> None))"
| "base64Decode (a # b # c # d # rest) =
     (case (sextet a, sextet b, sextet c, sextet d) of
        (Some w, Some x, Some y, Some z) \<Rightarrow>
          map_option ((@) (quantum w x y z)) (base64Decode rest)
      | _ \<Rightarrow> None)"
| "base64Decode other = None"

definition digit :: "nat \<Rightarrow> char" where
  "digit i = base64Alphabet ! (i mod 64)"

fun base64Encode :: "data \<Rightarrow> string" where
  "base64Encode [] = []"
| "base64Encode [x] =
     [digit (x div 4), digit (x mod 4 * 16), CHR ''='', CHR ''='']"
| "base64Encode [x, y] =
     [digit (x div 4), digit (x mod 4 * 16 + y div 16), digit (y mod 16 * 4), CHR ''='']"
| "base64Encode (x # y # z # rest) =
     [digit (x div 4), digit (x mod 4 * 16 + y div 16), digit (y mod 16 * 4 + z div 64),
      digit (z mod 64)] @ base64Encode rest"

subsection \<open>Following one entry through a run\<close>

text \<open>
  An action concerns the id \<open>i\<close> of a structured entry when it replies to \<open>i\<close> with
  \<open>replyToMessage\<close> or stores a handler under \<open>i\<close> again; likewise for raw-bytes
  entries. An entry that no action concerns is neither fulfilled nor replaced.
\<close>

fun concernsMessage :: "string \<Rightarrow> action \<Rightarrow> bool" where
  "concernsMessage i (DidReceiveMessage message (Some handler) uuid) = (uuid = i)"
| "concernsMessage i (ReplyToMessage replyId reply) = (replyId = i)"
| "concernsMessage i other = False"

fun concernsData :: "string \<Rightarrow> action \<Rightarrow> bool" where
  "concernsData i (DidReceiveMessageData bytes (Some handler) uuid) = (uuid = i)"
| "concernsData i (ReplyToMessageData replyId base64Data) = (replyId = i)"
| "concernsData i other = False"

text \<open>
  The state of an entry \<open>i\<close> whose expiry block \<open>block\<close> was queued for \<open>deadline\<close>:
  either the block is still queued (once, for that deadline) and the handler is stored,
  or the block has run, which cannot be before the deadline, and the entry is gone.
\<close>

definition awaiting ::
  "(module_state \<Rightarrow> string \<rightharpoonup> handler) \<Rightarrow> expiry \<Rightarrow> string \<Rightarrow> handler \<Rightarrow> nat \<Rightarrow> module_state \<Rightarrow> bool" where
  "awaiting pending block i cb deadline s =
     (if block \<in> snd ` set (timers s)
      then pending s i = Some cb \<and>
           filter (\<lambda>entry. snd entry = block) (timers s) = [(deadline, block)]
      else pending s i = None \<and> deadline \<le> now s)"

section \<open>Properties\<close>

subsection \<open>Replies to ids that are not pending\<close>

lemma removeValue_absent: "m k = None \<Longrightarrow> removeValue k m = (None, m)"
  by (simp add: removeValue_def fun_upd_idem)

lemma removeValue_present: "m k = Some v \<Longrightarrow> removeValue k m = (Some v, m(k := None))"
  by (simp add: removeValue_def)

lemma replyToMessage_absent:
  "pendingMessageReplies s i = None \<Longrightarrow> replyToMessage i p s = (False, s)"
  by (simp add: replyToMessage_def removeValue_absent)

lemma replyToMessageData_absent:
  "pendingDataReplies s i = None \<Longrightarrow> replyToMessageData decode i b s = (False, s)"
  by (simp add: replyToMessageData_def removeValue_absent split: option.splits)

lemma replyToMessage_pending:
  "pendingMessageReplies s i = Some h \<Longrightarrow>
   replyToMessage i p s =
     (True, s\<lparr>pendingMessageReplies := (pendingMessageReplies s)(i := None),
               invoked := invoked s @ [MessageReply h p]\<rparr>)"
  by (simp add: replyToMessage_def removeValue_def)

lemma replyToMessageData_pending:
  "pendingDataReplies s i = Some h \<Longrightarrow> decode b = Some d \<Longrightarrow>
   replyToMessageData decode i b s =
     (True, s\<lparr>pendingDataReplies := (pendingDataReplies s)(i := None),
               invoked := invoked s @ [DataReply h d]\<rparr>)"
  by (simp add: replyToMessageData_def removeValue_def)

subsection \<open>The clock and the main queue\<close>

lemma tick_keeps:
  "pendingMessageReplies (tick t s) = pendingMessageReplies s"
  "pendingDataReplies (tick t s) = pendingDataReplies s"
  "invoked (tick t s) = invoked s"
  "events (tick t s) = events s"
  "timers (tick t s) = timers s"
  "now (tick t s) = max (now s) t"
  by (simp_all add: tick_def)

lemma runExpiry_keeps:
  "invoked (runExpiry block s) = invoked s"
  "events (runExpiry block s) = events s"
  "timers (runExpiry block s) = timers s"
  "now (runExpiry block s) = now s"
  by (cases block; simp)+

lemma runBlock_keeps:
  "invoked (runBlock entry s) = invoked s"
  "events (runBlock entry s) = events s"
  "now (runBlock entry s) = now s"
  "timers (runBlock entry s) =
     (if entry \<in> set (timers s) \<and> due (now s) entry then remove1 entry (timers s) else timers s)"
  by (simp_all add: runBlock_def runExpiry_keeps)

lemma runBlock_message:
  "pendingMessageReplies (runBlock entry s) k =
     (if entry \<in> set (timers s) \<and> due (now s) entry \<and> snd entry = ExpireMessageReply k
      then None else pendingMessageReplies s k)"
  by (cases "snd entry") (auto simp: runBlock_def removeValue_def)

lemma runBlock_data:
  "pendingDataReplies (runBlock entry s) k =
     (if entry \<in> set (timers s) \<and> due (now s) entry \<and> snd entry = ExpireDataReply k
      then None else pendingDataReplies s k)"
  by (cases "snd entry") (auto simp: runBlock_def removeValue_def)

lemma runBlocks_keep:
  "invoked (fold runBlock blocks s) = invoked s"
  "events (fold runBlock blocks s) = events s"
  "now (fold runBlock blocks s) = now s"
  by (induction blocks arbitrary: s; simp add: runBlock_keeps)+

lemma runBlocks_timers_subset: "set (timers (fold runBlock blocks s)) \<subseteq> set (timers s)"
proof (induction blocks arbitrary: s)
  case Nil
  show ?case by simp
next
  case (Cons entry blocks)
  have "set (timers (runBlock entry s)) \<subseteq> set (timers s)"
    using set_remove1_subset [of entry "timers s"] by (simp add: runBlock_keeps)
  with Cons.IH [of "runBlock entry s"] show ?case by auto
qed

lemma filter_remove1_other: "\<not> P x \<Longrightarrow> filter P (remove1 x xs) = filter P xs"
  by (induction xs) auto

lemma runBlocks_not_due:
  "filter (\<lambda>entry. \<not> due (now s) entry) (timers (fold runBlock blocks s)) =
   filter (\<lambda>entry. \<not> due (now s) entry) (timers s)"
proof (induction blocks arbitrary: s)
  case Nil
  show ?case by simp
next
  case (Cons entry blocks)
  have "filter (\<lambda>e. \<not> due (now s) e) (timers (runBlock entry s)) =
        filter (\<lambda>e. \<not> due (now s) e) (timers s)"
    by (simp add: runBlock_keeps filter_remove1_other)
  with Cons.IH [of "runBlock entry s"] show ?case
    by (simp add: runBlock_keeps)
qed

lemma runBlocks_message:
  "ExpireMessageReply k \<notin> snd ` set (filter (due (now s)) (timers s)) \<Longrightarrow>
   pendingMessageReplies (fold runBlock blocks s) k = pendingMessageReplies s k"
proof (induction blocks arbitrary: s)
  case Nil
  show ?case by simp
next
  case (Cons entry blocks)
  have sub: "set (timers (runBlock entry s)) \<subseteq> set (timers s)"
    using set_remove1_subset [of entry "timers s"] by (simp add: runBlock_keeps)
  from Cons.prems sub
  have "ExpireMessageReply k \<notin> snd ` set (filter (due (now (runBlock entry s))) (timers (runBlock entry s)))"
    by (auto simp: runBlock_keeps(3))
  then have "pendingMessageReplies (fold runBlock blocks (runBlock entry s)) k =
             pendingMessageReplies (runBlock entry s) k"
    by (rule Cons.IH)
  moreover from Cons.prems have "pendingMessageReplies (runBlock entry s) k = pendingMessageReplies s k"
    by (cases entry) (auto simp: runBlock_message image_iff)
  ultimately show ?case by simp
qed

lemma runBlocks_data:
  "ExpireDataReply k \<notin> snd ` set (filter (due (now s)) (timers s)) \<Longrightarrow>
   pendingDataReplies (fold runBlock blocks s) k = pendingDataReplies s k"
proof (induction blocks arbitrary: s)
  case Nil
  show ?case by simp
next
  case (Cons entry blocks)
  have sub: "set (timers (runBlock entry s)) \<subseteq> set (timers s)"
    using set_remove1_subset [of entry "timers s"] by (simp add: runBlock_keeps)
  from Cons.prems sub
  have "ExpireDataReply k \<notin> snd ` set (filter (due (now (runBlock entry s))) (timers (runBlock entry s)))"
    by (auto simp: runBlock_keeps(3))
  then have "pendingDataReplies (fold runBlock blocks (runBlock entry s)) k =
             pendingDataReplies (runBlock entry s) k"
    by (rule Cons.IH)
  moreover from Cons.prems have "pendingDataReplies (runBlock entry s) k = pendingDataReplies s k"
    by (cases entry) (auto simp: runBlock_data image_iff)
  ultimately show ?case by simp
qed

subsection \<open>Unfolding the module on concrete inputs\<close>

lemmas module_defs =
  dispatchMessageReceived_def dispatchMessageDataReceived_def sendEvent_def asyncAfter_def
  replyToMessage_def replyToMessageData_def removeValue_def initial_def Let_def

lemmas base64_defs = sextet_def base64Alphabet_def quantum_def digit_def

subsection \<open>C1: a reply to a pending entry\<close>

text \<open>
  C1. In every state, a reply made with the id of an entry that is still pending, through
  the entry point of the entry's kind, removes the entry, calls the entry's handler with
  the payload exactly once (the log of calls grows by that one call) and reports
  \<open>True\<close>; this holds in particular for a reply made right after the delivery that
  registered the handler under the id \<open>uuid\<close>. For a raw-bytes reply the payload is the
  decoded base64 string.
\<close>

theorem reply_to_pending_entry:
  "(pendingMessageReplies s i = Some cb \<longrightarrow>
      replyToMessage i p s =
        (True, s\<lparr>pendingMessageReplies := (pendingMessageReplies s)(i := None),
                  invoked := invoked s @ [MessageReply cb p]\<rparr>)) \<and>
   (pendingDataReplies s i = Some cb \<and> decode b = Some d \<longrightarrow>
      replyToMessageData decode i b s =
        (True, s\<lparr>pendingDataReplies := (pendingDataReplies s)(i := None),
                  invoked := invoked s @ [DataReply cb d]\<rparr>)) \<and>
   (case replyToMessage uuid p (dispatchMessageReceived m (Some cb) uuid s) of
      (consumed, s') \<Rightarrow>
        consumed \<and> invoked s' = invoked s @ [MessageReply cb p] \<and>
        pendingMessageReplies s' uuid = None) \<and>
   (decode b = Some d \<longrightarrow>
      (case replyToMessageData decode uuid b
              (dispatchMessageDataReceived encode bytes (Some cb) uuid s) of
         (consumed, s') \<Rightarrow>
           consumed \<and> invoked s' = invoked s @ [DataReply cb d] \<and>
           pendingDataReplies s' uuid = None))"
  by (simp add: replyToMessage_pending replyToMessageData_pending
        dispatchMessageReceived_def dispatchMessageDataReceived_def sendEvent_def asyncAfter_def)

theorem reply_to_pending_entry_witness:
  "base64Decode ''aGk='' = Some [104, 105] \<and>
   replyToMessage ''A'' [(''status'', AnyString ''ok'')]
       (dispatchMessageReceived [] (Some 7) ''A'' initial) =
     (True, (dispatchMessageReceived [] (Some 7) ''A'' initial)
              \<lparr>pendingMessageReplies := Map.empty,
                invoked := [MessageReply 7 [(''status'', AnyString ''ok'')]]\<rparr>) \<and>
   replyToMessageData base64Decode ''B'' ''aGk=''
       (dispatchMessageDataReceived base64Encode [1, 2] (Some 8) ''B'' initial) =
     (True, (dispatchMessageDataReceived base64Encode [1, 2] (Some 8) ''B'' initial)
              \<lparr>pendingDataReplies := Map.empty, invoked := [DataReply 8 [104, 105]]\<rparr>)"
proof -
  have d: "base64Decode ''aGk='' = Some [104, 105]"
    by (simp add: base64_defs)
  have m: "pendingMessageReplies (dispatchMessageReceived [] (Some 7) ''A'' initial) ''A'' = Some 7"
    by (simp add: module_defs)
  have b: "pendingDataReplies (dispatchMessageDataReceived base64Encode [1, 2] (Some 8) ''B'' initial) ''B'' = Some 8"
    by (simp add: module_defs)
  show ?thesis
    using d m b
      reply_to_pending_entry [of "dispatchMessageReceived [] (Some 7) ''A'' initial" "''A''" 7
        "[(''status'', AnyString ''ok'')]"]
      reply_to_pending_entry [of "dispatchMessageDataReceived base64Encode [1, 2] (Some 8) ''B'' initial" "''B''" 8
        _ base64Decode "''aGk=''" "[104, 105]"]
    by (simp add: module_defs)
qed

subsection \<open>C2: a reply to an id that is not pending\<close>

text \<open>
  C2. A reply made with an id that is absent from the dictionary the entry point reads
  (never registered, consumed by an earlier reply, or expired) reports \<open>False\<close>, calls
  no handler and leaves the whole state as it was. Of two successive replies with the id
  of a pending entry, the first reports \<open>True\<close> and calls the handler once, the second
  reports \<open>False\<close> and changes nothing.
\<close>

theorem reply_to_absent_entry:
  "(pendingMessageReplies s i = None \<longrightarrow> replyToMessage i p s = (False, s)) \<and>
   (pendingDataReplies s i = None \<longrightarrow> replyToMessageData decode i b s = (False, s)) \<and>
   (pendingMessageReplies s i = Some cb \<longrightarrow>
      (case replyToMessage i p s of
         (first, s') \<Rightarrow>
           first \<and> invoked s' = invoked s @ [MessageReply cb p] \<and>
           replyToMessage i q s' = (False, s'))) \<and>
   (pendingDataReplies s i = Some cb \<and> decode b = Some d \<longrightarrow>
      (case replyToMessageData decode i b s of
         (first, s') \<Rightarrow>
           first \<and> invoked s' = invoked s @ [DataReply cb d] \<and>
           replyToMessageData decode i c s' = (False, s')))"
proof (intro conjI impI)
  assume "pendingMessageReplies s i = None"
  then show "replyToMessage i p s = (False, s)" by (rule replyToMessage_absent)
next
  assume "pendingDataReplies s i = None"
  then show "replyToMessageData decode i b s = (False, s)" by (rule replyToMessageData_absent)
next
  assume "pendingMessageReplies s i = Some cb"
  then show "case replyToMessage i p s of
         (first, s') \<Rightarrow>
           first \<and> invoked s' = invoked s @ [MessageReply cb p] \<and>
           replyToMessage i q s' = (False, s')"
    by (simp add: replyToMessage_pending replyToMessage_absent)
next
  assume "pendingDataReplies s i = Some cb \<and> decode b = Some d"
  then show "case replyToMessageData decode i b s of
         (first, s') \<Rightarrow>
           first \<and> invoked s' = invoked s @ [DataReply cb d] \<and>
           replyToMessageData decode i c s' = (False, s')"
    by (simp add: replyToMessageData_pending replyToMessageData_absent)
qed

theorem reply_to_absent_entry_witness:
  "replyToMessage ''never-issued'' [(''ack'', AnyBool True)] initial = (False, initial) \<and>
   replyToMessageData base64Decode ''never-issued'' ''aGk='' initial = (False, initial) \<and>
   fst (replyToMessage ''A'' [(''ack'', AnyBool True)]
          (dispatchMessageReceived [] (Some 7) ''A'' initial)) \<and>
   replyToMessage ''A'' [(''ack'', AnyBool False)]
       (snd (replyToMessage ''A'' [(''ack'', AnyBool True)]
               (dispatchMessageReceived [] (Some 7) ''A'' initial))) =
     (False, (dispatchMessageReceived [] (Some 7) ''A'' initial)
               \<lparr>pendingMessageReplies := Map.empty,
                 invoked := [MessageReply 7 [(''ack'', AnyBool True)]]\<rparr>) \<and>
   replyToMessageData base64Decode ''B'' ''aGk=''
       (snd (replyToMessageData base64Decode ''B'' ''aGk=''
               (dispatchMessageDataReceived base64Encode [1, 2] (Some 8) ''B'' initial))) =
     (False, (dispatchMessageDataReceived base64Encode [1, 2] (Some 8) ''B'' initial)
               \<lparr>pendingDataReplies := Map.empty, invoked := [DataReply 8 [104, 105]]\<rparr>)"
proof -
  have d: "base64Decode ''aGk='' = Some [104, 105]"
    by (simp add: base64_defs)
  have m: "pendingMessageReplies (dispatchMessageReceived [] (Some 7) ''A'' initial) ''A'' = Some 7"
    by (simp add: module_defs)
  have b: "pendingDataReplies (dispatchMessageDataReceived base64Encode [1, 2] (Some 8) ''B'' initial) ''B'' = Some 8"
    by (simp add: module_defs)
  have e: "pendingMessageReplies initial ''never-issued'' = None"
          "pendingDataReplies initial ''never-issued'' = None"
    by (simp_all add: initial_def)
  show ?thesis
    using d m b e
      reply_to_absent_entry [of initial "''never-issued''" "[(''ack'', AnyBool True)]"
        base64Decode "''aGk=''"]
      reply_to_absent_entry [of "dispatchMessageReceived [] (Some 7) ''A'' initial" "''A''"
        "[(''ack'', AnyBool True)]" base64Decode "''aGk=''" 7 "[(''ack'', AnyBool False)]"]
      reply_to_absent_entry [of "dispatchMessageDataReceived base64Encode [1, 2] (Some 8) ''B'' initial"
        "''B''" _ base64Decode "''aGk=''" 8 _ "[104, 105]" "''aGk=''"]
    by (simp add: module_defs)
qed

subsection \<open>C9: a reply whose base64 string does not decode\<close>

text \<open>
  C9. For a pending raw-bytes entry \<open>x\<close> and a string that \<open>Data(base64Encoded:)\<close>
  rejects, \<open>replyToMessageData\<close> returns at the \<open>guard\<close>: no handler is called and the
  state, the entry for \<open>x\<close> included, is unchanged. A later reply with a string that
  decodes delivers the decoded bytes to the handler of \<open>x\<close>.
\<close>

theorem invalid_base64_keeps_entry:
  assumes "pendingDataReplies s x = Some cb"
    and "decode bad = None"
    and "decode good = Some d"
  shows "replyToMessageData decode x bad s = (False, s) \<and>
         replyToMessageData decode x good (snd (replyToMessageData decode x bad s)) =
           (True, s\<lparr>pendingDataReplies := (pendingDataReplies s)(x := None),
                     invoked := invoked s @ [DataReply cb d]\<rparr>)"
proof -
  have first: "replyToMessageData decode x bad s = (False, s)"
    using assms(2) by (simp add: replyToMessageData_def)
  show ?thesis
    using assms(1,3) by (simp add: first replyToMessageData_pending)
qed

theorem invalid_base64_keeps_entry_witness:
  "base64Decode ''not base64!'' = None \<and>
   base64Decode ''aGk='' = Some [104, 105] \<and>
   replyToMessageData base64Decode ''B'' ''not base64!''
       (dispatchMessageDataReceived base64Encode [1, 2] (Some 8) ''B'' initial) =
     (False, dispatchMessageDataReceived base64Encode [1, 2] (Some 8) ''B'' initial) \<and>
   replyToMessageData base64Decode ''B'' ''aGk=''
       (snd (replyToMessageData base64Decode ''B'' ''not base64!''
          (dispatchMessageDataReceived base64Encode [1, 2] (Some 8) ''B'' initial))) =
     (True, (dispatchMessageDataReceived base64Encode [1, 2] (Some 8) ''B'' initial)
              \<lparr>pendingDataReplies := Map.empty, invoked := [DataReply 8 [104, 105]]\<rparr>)"
proof -
  have bad: "base64Decode ''not base64!'' = None"
    by (simp add: base64_defs)
  have good: "base64Decode ''aGk='' = Some [104, 105]"
    by (simp add: base64_defs)
  have b: "pendingDataReplies (dispatchMessageDataReceived base64Encode [1, 2] (Some 8) ''B'' initial) ''B'' = Some 8"
    by (simp add: module_defs)
  show ?thesis
    using bad good invalid_base64_keeps_entry [OF b bad good]
    by (simp add: module_defs)
qed

subsection \<open>C6: a reply through the entry point of the other kind\<close>

text \<open>
  C6 as stated (a payload of the wrong kind still reaches the entry's handler) fails on
  the module: structured and raw-bytes handlers live in two dictionaries, and each entry
  point reads its own. A raw-bytes reply to the id of a pending structured entry (and a
  structured reply to the id of a pending raw-bytes entry) calls nothing and leaves the
  entry pending.
\<close>

theorem wrong_kind_payload_counterexample:
  "invoked (snd (replyToMessageData base64Decode ''A'' ''aGk=''
                   (dispatchMessageReceived [] (Some 7) ''A'' initial))) = [] \<and>
   pendingMessageReplies (snd (replyToMessageData base64Decode ''A'' ''aGk=''
                   (dispatchMessageReceived [] (Some 7) ''A'' initial))) ''A'' = Some 7 \<and>
   invoked (snd (replyToMessage ''B'' [(''text'', AnyString ''hi'')]
                   (dispatchMessageDataReceived base64Encode [1, 2] (Some 8) ''B'' initial))) = [] \<and>
   pendingDataReplies (snd (replyToMessage ''B'' [(''text'', AnyString ''hi'')]
                   (dispatchMessageDataReceived base64Encode [1, 2] (Some 8) ''B'' initial))) ''B''
     = Some 8"
  by (simp add: module_defs base64_defs)

text \<open>
  C6 (amended). The module does not validate the kind; each entry point looks the id up
  in the dictionary of its own kind only. A reply made with the id of a pending entry
  through the entry point of the other kind, when that id is not pending in the other
  dictionary as well, finds no entry: it reports \<open>False\<close>, calls no handler and leaves
  the state unchanged, so the entry stays pending.
\<close>

theorem wrong_kind_reply_finds_nothing:
  "(pendingMessageReplies s i = Some cb \<and> pendingDataReplies s i = None \<longrightarrow>
      replyToMessageData decode i b s = (False, s)) \<and>
   (pendingDataReplies s i = Some cb \<and> pendingMessageReplies s i = None \<longrightarrow>
      replyToMessage i p s = (False, s))"
  by (simp add: replyToMessage_absent replyToMessageData_absent)

theorem wrong_kind_reply_finds_nothing_witness:
  "replyToMessageData base64Decode ''A'' ''aGk=''
       (dispatchMessageReceived [] (Some 7) ''A'' initial) =
     (False, dispatchMessageReceived [] (Some 7) ''A'' initial) \<and>
   replyToMessage ''B'' [(''text'', AnyString ''hi'')]
       (dispatchMessageDataReceived base64Encode [1, 2] (Some 8) ''B'' initial) =
     (False, dispatchMessageDataReceived base64Encode [1, 2] (Some 8) ''B'' initial)"
proof -
  have m: "pendingMessageReplies (dispatchMessageReceived [] (Some 7) ''A'' initial) ''A'' = Some 7"
          "pendingDataReplies (dispatchMessageReceived [] (Some 7) ''A'' initial) ''A'' = None"
    by (simp_all add: module_defs)
  have b: "pendingDataReplies (dispatchMessageDataReceived base64Encode [1, 2] (Some 8) ''B'' initial) ''B'' = Some 8"
          "pendingMessageReplies (dispatchMessageDataReceived base64Encode [1, 2] (Some 8) ''B'' initial) ''B'' = None"
    by (simp_all add: module_defs)
  show ?thesis
    using m b
      wrong_kind_reply_finds_nothing [of "dispatchMessageReceived [] (Some 7) ''A'' initial"
        "''A''" 7 base64Decode "''aGk=''"]
      wrong_kind_reply_finds_nothing [of "dispatchMessageDataReceived base64Encode [1, 2] (Some 8) ''B'' initial"
        "''B''" 8 _ _ "[(''text'', AnyString ''hi'')]"]
    by simp
qed

subsection \<open>C7: the \<open>replyId\<close> field of the event\<close>

text \<open>
  C7. A delivery with a reply handler emits one event whose payload has the field
  \<open>replyId\<close>, a string: the id under which the handler has just been stored. A delivery
  without a reply handler emits one event whose payload has no \<open>replyId\<close> field. This
  holds for messages (\<open>onMessageReceived\<close>) and for data (\<open>onMessageDataReceived\<close>).
\<close>

theorem replyId_field_of_event:
  "events (dispatchMessageReceived m (Some cb) uuid s) =
     events s @ [(''onMessageReceived'', [(''message'', AnyDict m), (''replyId'', AnyString uuid)])] \<and>
   map_of (snd (last (events (dispatchMessageReceived m (Some cb) uuid s)))) ''replyId''
     = Some (AnyString uuid) \<and>
   pendingMessageReplies (dispatchMessageReceived m (Some cb) uuid s) uuid = Some cb \<and>
   events (dispatchMessageReceived m None uuid s) =
     events s @ [(''onMessageReceived'', [(''message'', AnyDict m)])] \<and>
   map_of (snd (last (events (dispatchMessageReceived m None uuid s)))) ''replyId'' = None \<and>
   events (dispatchMessageDataReceived encode bytes (Some cb) uuid s) =
     events s @ [(''onMessageDataReceived'',
                  [(''data'', AnyString (encode bytes)), (''replyId'', AnyString uuid)])] \<and>
   map_of (snd (last (events (dispatchMessageDataReceived encode bytes (Some cb) uuid s)))) ''replyId''
     = Some (AnyString uuid) \<and>
   pendingDataReplies (dispatchMessageDataReceived encode bytes (Some cb) uuid s) uuid = Some cb \<and>
   events (dispatchMessageDataReceived encode bytes None uuid s) =
     events s @ [(''onMessageDataReceived'', [(''data'', AnyString (encode bytes))])] \<and>
   map_of (snd (last (events (dispatchMessageDataReceived encode bytes None uuid s)))) ''replyId''
     = None"
  by (simp add: module_defs)

theorem replyId_field_of_event_witness:
  "events (dispatchMessageReceived [(''action'', AnyString ''ping'')] (Some 7) ''A'' initial) =
     [(''onMessageReceived'',
       [(''message'', AnyDict [(''action'', AnyString ''ping'')]), (''replyId'', AnyString ''A'')])] \<and>
   events (dispatchMessageReceived [(''action'', AnyString ''ping'')] None ''A'' initial) =
     [(''onMessageReceived'', [(''message'', AnyDict [(''action'', AnyString ''ping'')])])] \<and>
   events (dispatchMessageDataReceived base64Encode [104, 105] (Some 8) ''B'' initial) =
     [(''onMessageDataReceived'', [(''data'', AnyString ''aGk=''), (''replyId'', AnyString ''B'')])] \<and>
   events (dispatchMessageDataReceived base64Encode [104, 105] None ''B'' initial) =
     [(''onMessageDataReceived'', [(''data'', AnyString ''aGk='')])]"
  using replyId_field_of_event [of "[(''action'', AnyString ''ping'')]" 7 "''A''" initial
          base64Encode "[104, 105]"]
        replyId_field_of_event [of "[(''action'', AnyString ''ping'')]" 8 "''B''" initial
          base64Encode "[104, 105]"]
  by (simp add: initial_def base64_defs)

subsection \<open>C10: what a removal leaves alone\<close>

text \<open>
  C10. A reply to \<open>i\<close> and the expiry block of \<open>i\<close> change at most the entry of \<open>i\<close> in
  the dictionary of their own kind: every other key of that dictionary, the whole
  dictionary of the other kind and the queue of expiry blocks (the deadlines) are as
  before, and an expiry block calls no handler. When the main queue runs a block, only
  that block leaves the queue and only its key can go; whatever blocks the main queue
  runs, an entry with no due block keeps its handler and the blocks that are not due
  stay queued with their deadlines. The passing of time alone changes neither
  dictionary nor the queue.
\<close>

theorem removal_touches_one_entry:
  "(k \<noteq> i \<longrightarrow>
      pendingMessageReplies (snd (replyToMessage i p s)) k = pendingMessageReplies s k) \<and>
   pendingDataReplies (snd (replyToMessage i p s)) = pendingDataReplies s \<and>
   timers (snd (replyToMessage i p s)) = timers s \<and>
   (k \<noteq> i \<longrightarrow>
      pendingDataReplies (snd (replyToMessageData decode i b s)) k = pendingDataReplies s k) \<and>
   pendingMessageReplies (snd (replyToMessageData decode i b s)) = pendingMessageReplies s \<and>
   timers (snd (replyToMessageData decode i b s)) = timers s \<and>
   (k \<noteq> i \<longrightarrow>
      pendingMessageReplies (runExpiry (ExpireMessageReply i) s) k = pendingMessageReplies s k) \<and>
   pendingDataReplies (runExpiry (ExpireMessageReply i) s) = pendingDataReplies s \<and>
   timers (runExpiry (ExpireMessageReply i) s) = timers s \<and>
   invoked (runExpiry (ExpireMessageReply i) s) = invoked s \<and>
   (k \<noteq> i \<longrightarrow>
      pendingDataReplies (runExpiry (ExpireDataReply i) s) k = pendingDataReplies s k) \<and>
   pendingMessageReplies (runExpiry (ExpireDataReply i) s) = pendingMessageReplies s \<and>
   timers (runExpiry (ExpireDataReply i) s) = timers s \<and>
   invoked (runExpiry (ExpireDataReply i) s) = invoked s \<and>
   (snd entry \<noteq> ExpireMessageReply k \<longrightarrow>
      pendingMessageReplies (runBlock entry s) k = pendingMessageReplies s k) \<and>
   (snd entry \<noteq> ExpireDataReply k \<longrightarrow>
      pendingDataReplies (runBlock entry s) k = pendingDataReplies s k) \<and>
   timers (runBlock entry s) =
     (if entry \<in> set (timers s) \<and> due (now s) entry then remove1 entry (timers s)
      else timers s) \<and>
   invoked (runBlock entry s) = invoked s \<and>
   (ExpireMessageReply k \<notin> snd ` set (filter (due (now s)) (timers s)) \<longrightarrow>
      pendingMessageReplies (fold runBlock blocks s) k = pendingMessageReplies s k) \<and>
   (ExpireDataReply k \<notin> snd ` set (filter (due (now s)) (timers s)) \<longrightarrow>
      pendingDataReplies (fold runBlock blocks s) k = pendingDataReplies s k) \<and>
   filter (\<lambda>entry. \<not> due (now s) entry) (timers (fold runBlock blocks s)) =
     filter (\<lambda>entry. \<not> due (now s) entry) (timers s) \<and>
   pendingMessageReplies (tick t s) = pendingMessageReplies s \<and>
   pendingDataReplies (tick t s) = pendingDataReplies s \<and>
   timers (tick t s) = timers s"
proof -
  have reply: "(k \<noteq> i \<longrightarrow>
      pendingMessageReplies (snd (replyToMessage i p s)) k = pendingMessageReplies s k) \<and>
   pendingDataReplies (snd (replyToMessage i p s)) = pendingDataReplies s \<and>
   timers (snd (replyToMessage i p s)) = timers s"
    by (simp add: replyToMessage_def removeValue_def split: option.splits)
  have replyData: "(k \<noteq> i \<longrightarrow>
      pendingDataReplies (snd (replyToMessageData decode i b s)) k = pendingDataReplies s k) \<and>
   pendingMessageReplies (snd (replyToMessageData decode i b s)) = pendingMessageReplies s \<and>
   timers (snd (replyToMessageData decode i b s)) = timers s"
    by (simp add: replyToMessageData_def removeValue_def split: option.splits)
  have block: "(k \<noteq> i \<longrightarrow>
      pendingMessageReplies (runExpiry (ExpireMessageReply i) s) k = pendingMessageReplies s k) \<and>
   pendingDataReplies (runExpiry (ExpireMessageReply i) s) = pendingDataReplies s \<and>
   timers (runExpiry (ExpireMessageReply i) s) = timers s \<and>
   invoked (runExpiry (ExpireMessageReply i) s) = invoked s"
    by (simp add: removeValue_def)
  have blockData: "(k \<noteq> i \<longrightarrow>
      pendingDataReplies (runExpiry (ExpireDataReply i) s) k = pendingDataReplies s k) \<and>
   pendingMessageReplies (runExpiry (ExpireDataReply i) s) = pendingMessageReplies s \<and>
   timers (runExpiry (ExpireDataReply i) s) = timers s \<and>
   invoked (runExpiry (ExpireDataReply i) s) = invoked s"
    by (simp add: removeValue_def)
  have queue: "(snd entry \<noteq> ExpireMessageReply k \<longrightarrow>
      pendingMessageReplies (runBlock entry s) k = pendingMessageReplies s k) \<and>
   (snd entry \<noteq> ExpireDataReply k \<longrightarrow>
      pendingDataReplies (runBlock entry s) k = pendingDataReplies s k) \<and>
   timers (runBlock entry s) =
     (if entry \<in> set (timers s) \<and> due (now s) entry then remove1 entry (timers s)
      else timers s) \<and>
   invoked (runBlock entry s) = invoked s"
    by (simp add: runBlock_message runBlock_data runBlock_keeps)
  have blocks: "(ExpireMessageReply k \<notin> snd ` set (filter (due (now s)) (timers s)) \<longrightarrow>
      pendingMessageReplies (fold runBlock blocks s) k = pendingMessageReplies s k) \<and>
   (ExpireDataReply k \<notin> snd ` set (filter (due (now s)) (timers s)) \<longrightarrow>
      pendingDataReplies (fold runBlock blocks s) k = pendingDataReplies s k) \<and>
   filter (\<lambda>entry. \<not> due (now s) entry) (timers (fold runBlock blocks s)) =
     filter (\<lambda>entry. \<not> due (now s) entry) (timers s)"
    using runBlocks_message [of k s blocks] runBlocks_data [of k s blocks]
      runBlocks_not_due [of s blocks]
    by blast
  have clock: "pendingMessageReplies (tick t s) = pendingMessageReplies s \<and>
   pendingDataReplies (tick t s) = pendingDataReplies s \<and>
   timers (tick t s) = timers s"
    by (simp add: tick_keeps)
  from reply replyData block blockData queue blocks clock show ?thesis by blast
qed

theorem removal_touches_one_entry_witness:
  "''B'' \<noteq> ''A'' \<and>
   pendingMessageReplies (snd (replyToMessage ''B'' [] (dispatchMessageReceived [] (Some 9) ''B''
      (dispatchMessageReceived [] (Some 7) ''A'' initial)))) ''A'' = Some 7 \<and>
   pendingMessageReplies
     (fold runBlock [(30000, ExpireMessageReply ''A''), (31000, ExpireMessageReply ''B'')]
        (tick 30000 (dispatchMessageReceived [] (Some 9) ''B''
           (tick 1000 (dispatchMessageReceived [] (Some 7) ''A'' initial))))) ''B'' = Some 9 \<and>
   timers
     (fold runBlock [(30000, ExpireMessageReply ''A''), (31000, ExpireMessageReply ''B'')]
        (tick 30000 (dispatchMessageReceived [] (Some 9) ''B''
           (tick 1000 (dispatchMessageReceived [] (Some 7) ''A'' initial))))) =
     [(31000, ExpireMessageReply ''B'')]"
  using removal_touches_one_entry [of "''A''" "''B''" "[]" "dispatchMessageReceived [] (Some 9) ''B''
      (dispatchMessageReceived [] (Some 7) ''A'' initial)"]
     removal_touches_one_entry [where k = "''B''" and s = "tick 30000 (dispatchMessageReceived [] (Some 9) ''B''
           (tick 1000 (dispatchMessageReceived [] (Some 7) ''A'' initial)))"
        and blocks = "[(30000, ExpireMessageReply ''A''), (31000, ExpireMessageReply ''B'')]"]
  by (simp add: module_defs tick_def runBlock_def due_def)

subsection \<open>C3: expiry after thirty seconds\<close>

lemma filter_remove1_single:
  "filter P xs = [x] \<Longrightarrow> filter P (remove1 x xs) = []"
  by (simp add: filter_remove1)

lemma awaiting_runBlock:
  assumes "awaiting pending block i cb deadline s"
    and other: "\<And>e. e \<noteq> block \<Longrightarrow> pending (runExpiry e s') i = pending s' i"
    and self: "pending (runExpiry block s') i = None"
    and s': "s' = s\<lparr>timers := remove1 entry (timers s)\<rparr>"
    and same: "pending s' = pending s"
    and run: "entry \<in> set (timers s)" "due (now s) entry"
  shows "awaiting pending block i cb deadline (runExpiry (snd entry) s')"
proof (cases "snd entry = block")
  case True
  from run(1) True assms(1) have queued: "filter (\<lambda>e. snd e = block) (timers s) = [(deadline, block)]"
    by (auto simp: awaiting_def image_iff split: if_splits)
  from run(1) True have "entry \<in> set (filter (\<lambda>e. snd e = block) (timers s))" by simp
  with queued have entry: "entry = (deadline, block)" by simp
  have "filter (\<lambda>e. snd e = block) (remove1 entry (timers s)) = []"
    using queued entry by (simp add: filter_remove1_single)
  then have "block \<notin> snd ` set (remove1 entry (timers s))"
    by (auto simp: filter_empty_conv)
  moreover have "deadline \<le> now s" using run(2) entry by (simp add: due_def)
  ultimately show ?thesis
    using True self by (simp add: awaiting_def runExpiry_keeps s')
next
  case False
  have f: "filter (\<lambda>e. snd e = block) (remove1 entry (timers s)) =
           filter (\<lambda>e. snd e = block) (timers s)"
    using False by (simp add: filter_remove1_other)
  have m: "block \<in> snd ` set (remove1 entry (timers s)) \<longleftrightarrow> block \<in> snd ` set (timers s)"
  proof -
    have "block \<in> snd ` set xs \<longleftrightarrow> filter (\<lambda>e. snd e = block) xs \<noteq> []" for xs :: "(nat \<times> expiry) list"
      by (auto simp: filter_empty_conv image_iff)
    with f show ?thesis by simp
  qed
  show ?thesis
    using assms(1) other [OF False] same f m
    by (simp add: awaiting_def runExpiry_keeps s')
qed

lemma awaiting_message_step:
  assumes "awaiting pendingMessageReplies (ExpireMessageReply i) i cb deadline s"
    and "\<not> concernsMessage i a"
  shows "awaiting pendingMessageReplies (ExpireMessageReply i) i cb deadline (perform decode encode a s)"
proof (cases a)
  case (DidReceiveMessage message replyHandler uuid)
  with assms show ?thesis
    by (cases replyHandler)
       (auto simp: awaiting_def dispatchMessageReceived_def sendEvent_def asyncAfter_def Let_def
             split: if_splits)
next
  case (DidReceiveMessageData bytes replyHandler uuid)
  with assms show ?thesis
    by (cases replyHandler)
       (auto simp: awaiting_def dispatchMessageDataReceived_def sendEvent_def asyncAfter_def Let_def
             split: if_splits)
next
  case (ReplyToMessage replyId reply)
  with assms show ?thesis
    by (auto simp: awaiting_def replyToMessage_def removeValue_def split: if_splits option.splits)
next
  case (ReplyToMessageData replyId base64Data)
  with assms show ?thesis
    by (auto simp: awaiting_def replyToMessageData_def removeValue_def split: if_splits option.splits)
next
  case (ClockReaches t)
  with assms show ?thesis
    by (auto simp: awaiting_def tick_def split: if_splits)
next
  case (MainQueueRuns entry)
  show ?thesis
  proof (cases "entry \<in> set (timers s) \<and> due (now s) entry")
    case False
    with assms(1) MainQueueRuns show ?thesis by (auto simp: runBlock_def)
  next
    case True
    have "awaiting pendingMessageReplies (ExpireMessageReply i) i cb deadline
            (runExpiry (snd entry) (s\<lparr>timers := remove1 entry (timers s)\<rparr>))"
    proof (rule awaiting_runBlock [OF assms(1)])
      show "pendingMessageReplies (runExpiry e (s\<lparr>timers := remove1 entry (timers s)\<rparr>)) i =
            pendingMessageReplies (s\<lparr>timers := remove1 entry (timers s)\<rparr>) i"
        if "e \<noteq> ExpireMessageReply i" for e
        using that by (cases e) (auto simp: removeValue_def)
    qed (insert True, simp_all add: removeValue_def)
    with True MainQueueRuns show ?thesis by (simp add: runBlock_def)
  qed
qed

lemma awaiting_data_step:
  assumes "awaiting pendingDataReplies (ExpireDataReply i) i cb deadline s"
    and "\<not> concernsData i a"
  shows "awaiting pendingDataReplies (ExpireDataReply i) i cb deadline (perform decode encode a s)"
proof (cases a)
  case (DidReceiveMessage message replyHandler uuid)
  with assms show ?thesis
    by (cases replyHandler)
       (auto simp: awaiting_def dispatchMessageReceived_def sendEvent_def asyncAfter_def Let_def
             split: if_splits)
next
  case (DidReceiveMessageData bytes replyHandler uuid)
  with assms show ?thesis
    by (cases replyHandler)
       (auto simp: awaiting_def dispatchMessageDataReceived_def sendEvent_def asyncAfter_def Let_def
             split: if_splits)
next
  case (ReplyToMessage replyId reply)
  with assms show ?thesis
    by (auto simp: awaiting_def replyToMessage_def removeValue_def split: if_splits option.splits)
next
  case (ReplyToMessageData replyId base64Data)
  with assms show ?thesis
    by (auto simp: awaiting_def replyToMessageData_def removeValue_def split: if_splits option.splits)
next
  case (ClockReaches t)
  with assms show ?thesis
    by (auto simp: awaiting_def tick_def split: if_splits)
next
  case (MainQueueRuns entry)
  show ?thesis
  proof (cases "entry \<in> set (timers s) \<and> due (now s) entry")
    case False
    with assms(1) MainQueueRuns show ?thesis by (auto simp: runBlock_def)
  next
    case True
    have "awaiting pendingDataReplies (ExpireDataReply i) i cb deadline
            (runExpiry (snd entry) (s\<lparr>timers := remove1 entry (timers s)\<rparr>))"
    proof (rule awaiting_runBlock [OF assms(1)])
      show "pendingDataReplies (runExpiry e (s\<lparr>timers := remove1 entry (timers s)\<rparr>)) i =
            pendingDataReplies (s\<lparr>timers := remove1 entry (timers s)\<rparr>) i"
        if "e \<noteq> ExpireDataReply i" for e
        using that by (cases e) (auto simp: removeValue_def)
    qed (insert True, simp_all add: removeValue_def)
    with True MainQueueRuns show ?thesis by (simp add: runBlock_def)
  qed
qed

lemma awaiting_message_run:
  "awaiting pendingMessageReplies (ExpireMessageReply i) i cb deadline s \<Longrightarrow>
   list_all (\<lambda>a. \<not> concernsMessage i a) acts \<Longrightarrow>
   awaiting pendingMessageReplies (ExpireMessageReply i) i cb deadline (run decode encode acts s)"
  unfolding run_def
  by (induction acts arbitrary: s) (simp_all add: awaiting_message_step)

lemma awaiting_data_run:
  "awaiting pendingDataReplies (ExpireDataReply i) i cb deadline s \<Longrightarrow>
   list_all (\<lambda>a. \<not> concernsData i a) acts \<Longrightarrow>
   awaiting pendingDataReplies (ExpireDataReply i) i cb deadline (run decode encode acts s)"
  unfolding run_def
  by (induction acts arbitrary: s) (simp_all add: awaiting_data_step)

lemma awaiting_message_start:
  "ExpireMessageReply uuid \<notin> snd ` set (timers s) \<Longrightarrow>
   awaiting pendingMessageReplies (ExpireMessageReply uuid) uuid cb (now s + 30000)
     (dispatchMessageReceived m (Some cb) uuid s)"
  by (auto simp: awaiting_def dispatchMessageReceived_def sendEvent_def asyncAfter_def Let_def
        image_iff filter_empty_conv)

lemma awaiting_data_start:
  "ExpireDataReply uuid \<notin> snd ` set (timers s) \<Longrightarrow>
   awaiting pendingDataReplies (ExpireDataReply uuid) uuid cb (now s + 30000)
     (dispatchMessageDataReceived encode bytes (Some cb) uuid s)"
  by (auto simp: awaiting_def dispatchMessageDataReceived_def sendEvent_def asyncAfter_def Let_def
        image_iff filter_empty_conv)

lemma awaiting_message_facts:
  assumes "awaiting pendingMessageReplies (ExpireMessageReply i) i cb deadline s"
  shows "now s < deadline \<longrightarrow> ExpireMessageReply i \<in> snd ` set (timers s)"
    and "ExpireMessageReply i \<in> snd ` set (timers s) \<longrightarrow>
           replyToMessage i p s =
             (True, s\<lparr>pendingMessageReplies := (pendingMessageReplies s)(i := None),
                       invoked := invoked s @ [MessageReply cb p]\<rparr>)"
    and "ExpireMessageReply i \<notin> snd ` set (timers s) \<longrightarrow>
           deadline \<le> now s \<and> pendingMessageReplies s i = None \<and>
           replyToMessage i p s = (False, s)"
    and "ExpireMessageReply i \<in> snd ` set (timers s) \<and> deadline \<le> now s \<longrightarrow>
           pendingMessageReplies (runBlock (deadline, ExpireMessageReply i) s) i = None \<and>
           ExpireMessageReply i \<notin> snd ` set (timers (runBlock (deadline, ExpireMessageReply i) s)) \<and>
           replyToMessage i p (runBlock (deadline, ExpireMessageReply i) s) =
             (False, runBlock (deadline, ExpireMessageReply i) s)"
proof -
  show "now s < deadline \<longrightarrow> ExpireMessageReply i \<in> snd ` set (timers s)"
    using assms by (auto simp: awaiting_def split: if_splits)
  show "ExpireMessageReply i \<in> snd ` set (timers s) \<longrightarrow>
           replyToMessage i p s =
             (True, s\<lparr>pendingMessageReplies := (pendingMessageReplies s)(i := None),
                       invoked := invoked s @ [MessageReply cb p]\<rparr>)"
    using assms by (auto simp: awaiting_def replyToMessage_pending split: if_splits)
  show "ExpireMessageReply i \<notin> snd ` set (timers s) \<longrightarrow>
           deadline \<le> now s \<and> pendingMessageReplies s i = None \<and>
           replyToMessage i p s = (False, s)"
    using assms by (auto simp: awaiting_def replyToMessage_absent split: if_splits)
  show "ExpireMessageReply i \<in> snd ` set (timers s) \<and> deadline \<le> now s \<longrightarrow>
           pendingMessageReplies (runBlock (deadline, ExpireMessageReply i) s) i = None \<and>
           ExpireMessageReply i \<notin> snd ` set (timers (runBlock (deadline, ExpireMessageReply i) s)) \<and>
           replyToMessage i p (runBlock (deadline, ExpireMessageReply i) s) =
             (False, runBlock (deadline, ExpireMessageReply i) s)"
  proof (intro impI)
    assume a: "ExpireMessageReply i \<in> snd ` set (timers s) \<and> deadline \<le> now s"
    with assms have q: "filter (\<lambda>e. snd e = ExpireMessageReply i) (timers s) = [(deadline, ExpireMessageReply i)]"
      by (auto simp: awaiting_def split: if_splits)
    then have "(deadline, ExpireMessageReply i) \<in> set (filter (\<lambda>e. snd e = ExpireMessageReply i) (timers s))"
      by simp
    then have mem: "(deadline, ExpireMessageReply i) \<in> set (timers s)" by simp
    have gone: "pendingMessageReplies (runBlock (deadline, ExpireMessageReply i) s) i = None"
      using mem a by (simp add: runBlock_message due_def)
    have "filter (\<lambda>e. snd e = ExpireMessageReply i) (timers (runBlock (deadline, ExpireMessageReply i) s)) = []"
      using mem a q by (simp add: runBlock_keeps due_def filter_remove1_single)
    then have out: "ExpireMessageReply i \<notin> snd ` set (timers (runBlock (deadline, ExpireMessageReply i) s))"
      by (auto simp: filter_empty_conv)
    from gone out show "pendingMessageReplies (runBlock (deadline, ExpireMessageReply i) s) i = None \<and>
           ExpireMessageReply i \<notin> snd ` set (timers (runBlock (deadline, ExpireMessageReply i) s)) \<and>
           replyToMessage i p (runBlock (deadline, ExpireMessageReply i) s) =
             (False, runBlock (deadline, ExpireMessageReply i) s)"
      by (simp add: replyToMessage_absent)
  qed
qed

lemma awaiting_data_facts:
  assumes "awaiting pendingDataReplies (ExpireDataReply i) i cb deadline s"
    and "decode b = Some d"
  shows "now s < deadline \<longrightarrow> ExpireDataReply i \<in> snd ` set (timers s)"
    and "ExpireDataReply i \<in> snd ` set (timers s) \<longrightarrow>
           replyToMessageData decode i b s =
             (True, s\<lparr>pendingDataReplies := (pendingDataReplies s)(i := None),
                       invoked := invoked s @ [DataReply cb d]\<rparr>)"
    and "ExpireDataReply i \<notin> snd ` set (timers s) \<longrightarrow>
           deadline \<le> now s \<and> pendingDataReplies s i = None \<and>
           replyToMessageData decode i b s = (False, s)"
    and "ExpireDataReply i \<in> snd ` set (timers s) \<and> deadline \<le> now s \<longrightarrow>
           pendingDataReplies (runBlock (deadline, ExpireDataReply i) s) i = None \<and>
           ExpireDataReply i \<notin> snd ` set (timers (runBlock (deadline, ExpireDataReply i) s)) \<and>
           replyToMessageData decode i b (runBlock (deadline, ExpireDataReply i) s) =
             (False, runBlock (deadline, ExpireDataReply i) s)"
proof -
  show "now s < deadline \<longrightarrow> ExpireDataReply i \<in> snd ` set (timers s)"
    using assms by (auto simp: awaiting_def split: if_splits)
  show "ExpireDataReply i \<in> snd ` set (timers s) \<longrightarrow>
           replyToMessageData decode i b s =
             (True, s\<lparr>pendingDataReplies := (pendingDataReplies s)(i := None),
                       invoked := invoked s @ [DataReply cb d]\<rparr>)"
    using assms by (auto simp: awaiting_def replyToMessageData_pending split: if_splits)
  show "ExpireDataReply i \<notin> snd ` set (timers s) \<longrightarrow>
           deadline \<le> now s \<and> pendingDataReplies s i = None \<and>
           replyToMessageData decode i b s = (False, s)"
    using assms by (auto simp: awaiting_def replyToMessageData_absent split: if_splits)
  show "ExpireDataReply i \<in> snd ` set (timers s) \<and> deadline \<le> now s \<longrightarrow>
           pendingDataReplies (runBlock (deadline, ExpireDataReply i) s) i = None \<and>
           ExpireDataReply i \<notin> snd ` set (timers (runBlock (deadline, ExpireDataReply i) s)) \<and>
           replyToMessageData decode i b (runBlock (deadline, ExpireDataReply i) s) =
             (False, runBlock (deadline, ExpireDataReply i) s)"
  proof (intro impI)
    assume a: "ExpireDataReply i \<in> snd ` set (timers s) \<and> deadline \<le> now s"
    with assms have q: "filter (\<lambda>e. snd e = ExpireDataReply i) (timers s) = [(deadline, ExpireDataReply i)]"
      by (auto simp: awaiting_def split: if_splits)
    then have "(deadline, ExpireDataReply i) \<in> set (filter (\<lambda>e. snd e = ExpireDataReply i) (timers s))"
      by simp
    then have mem: "(deadline, ExpireDataReply i) \<in> set (timers s)" by simp
    have gone: "pendingDataReplies (runBlock (deadline, ExpireDataReply i) s) i = None"
      using mem a by (simp add: runBlock_data due_def)
    have "filter (\<lambda>e. snd e = ExpireDataReply i) (timers (runBlock (deadline, ExpireDataReply i) s)) = []"
      using mem a q by (simp add: runBlock_keeps due_def filter_remove1_single)
    then have out: "ExpireDataReply i \<notin> snd ` set (timers (runBlock (deadline, ExpireDataReply i) s))"
      by (auto simp: filter_empty_conv)
    from gone out show "pendingDataReplies (runBlock (deadline, ExpireDataReply i) s) i = None \<and>
           ExpireDataReply i \<notin> snd ` set (timers (runBlock (deadline, ExpireDataReply i) s)) \<and>
           replyToMessageData decode i b (runBlock (deadline, ExpireDataReply i) s) =
             (False, runBlock (deadline, ExpireDataReply i) s)"
      by (simp add: replyToMessageData_absent)
  qed
qed

text \<open>
  C3 as stated (a reply attempted after the 30-second deadline fails, the handler never
  fires from then on) does not hold of the module. Nothing in \<open>replyToMessage\<close> looks at
  the time: the entry goes when the expiry block has run, and the main queue runs it at
  some moment not before the deadline. With the clock at 30.1 s and the block of an
  entry registered at 0 s still queued, the reply finds the handler and calls it.
\<close>

theorem reply_after_deadline_counterexample:
  "timers (dispatchMessageReceived [] (Some 7) ''A'' initial) = [(30000, ExpireMessageReply ''A'')] \<and>
   now (tick 30100 (dispatchMessageReceived [] (Some 7) ''A'' initial)) = 30100 \<and>
   fst (replyToMessage ''A'' [(''late'', AnyBool True)]
          (tick 30100 (dispatchMessageReceived [] (Some 7) ''A'' initial))) \<and>
   invoked (snd (replyToMessage ''A'' [(''late'', AnyBool True)]
          (tick 30100 (dispatchMessageReceived [] (Some 7) ''A'' initial)))) =
     [MessageReply 7 [(''late'', AnyBool True)]]"
  by (simp add: module_defs tick_def)

text \<open>
  C3 (amended). A delivery with a reply handler queues exactly one expiry block, with
  deadline thirty seconds (30000 ms) after the clock at registration. Let the id be
  fresh (no queued block carries it) and let any run of actions follow that neither
  replies to the id nor stores under it again. Before the deadline the block is still
  queued. As long as the block is still queued, also past the deadline, a reply succeeds:
  it reports \<open>True\<close> and calls the handler once. When the block is no longer queued, the
  deadline has been reached, the entry is gone and a reply reports \<open>False\<close> and changes
  nothing. Once the deadline has been reached the main queue can run the block, which
  removes the entry; running a block calls no handler and emits no event. The same holds
  for raw-bytes entries.
\<close>

theorem expiry_block_ends_entry:
  "timers (dispatchMessageReceived m (Some cb) uuid s) =
     timers s @ [(now s + 30000, ExpireMessageReply uuid)] \<and>
   (ExpireMessageReply uuid \<notin> snd ` set (timers s) \<and>
    list_all (\<lambda>a. \<not> concernsMessage uuid a) acts \<longrightarrow>
      (let s' = run decode encode acts (dispatchMessageReceived m (Some cb) uuid s) in
         (now s' < now s + 30000 \<longrightarrow> ExpireMessageReply uuid \<in> snd ` set (timers s')) \<and>
         (ExpireMessageReply uuid \<in> snd ` set (timers s') \<longrightarrow>
            replyToMessage uuid p s' =
              (True, s'\<lparr>pendingMessageReplies := (pendingMessageReplies s')(uuid := None),
                         invoked := invoked s' @ [MessageReply cb p]\<rparr>)) \<and>
         (ExpireMessageReply uuid \<notin> snd ` set (timers s') \<longrightarrow>
            now s + 30000 \<le> now s' \<and> pendingMessageReplies s' uuid = None \<and>
            replyToMessage uuid p s' = (False, s')) \<and>
         (ExpireMessageReply uuid \<in> snd ` set (timers s') \<and> now s + 30000 \<le> now s' \<longrightarrow>
            pendingMessageReplies (runBlock (now s + 30000, ExpireMessageReply uuid) s') uuid = None \<and>
            ExpireMessageReply uuid \<notin>
              snd ` set (timers (runBlock (now s + 30000, ExpireMessageReply uuid) s')) \<and>
            replyToMessage uuid p (runBlock (now s + 30000, ExpireMessageReply uuid) s') =
              (False, runBlock (now s + 30000, ExpireMessageReply uuid) s')))) \<and>
   timers (dispatchMessageDataReceived encode bytes (Some cb) uuid s) =
     timers s @ [(now s + 30000, ExpireDataReply uuid)] \<and>
   (ExpireDataReply uuid \<notin> snd ` set (timers s) \<and>
    list_all (\<lambda>a. \<not> concernsData uuid a) acts \<and> decode b = Some d \<longrightarrow>
      (let s' = run decode encode acts (dispatchMessageDataReceived encode bytes (Some cb) uuid s) in
         (now s' < now s + 30000 \<longrightarrow> ExpireDataReply uuid \<in> snd ` set (timers s')) \<and>
         (ExpireDataReply uuid \<in> snd ` set (timers s') \<longrightarrow>
            replyToMessageData decode uuid b s' =
              (True, s'\<lparr>pendingDataReplies := (pendingDataReplies s')(uuid := None),
                         invoked := invoked s' @ [DataReply cb d]\<rparr>)) \<and>
         (ExpireDataReply uuid \<notin> snd ` set (timers s') \<longrightarrow>
            now s + 30000 \<le> now s' \<and> pendingDataReplies s' uuid = None \<and>
            replyToMessageData decode uuid b s' = (False, s')) \<and>
         (ExpireDataReply uuid \<in> snd ` set (timers s') \<and> now s + 30000 \<le> now s' \<longrightarrow>
            pendingDataReplies (runBlock (now s + 30000, ExpireDataReply uuid) s') uuid = None \<and>
            ExpireDataReply uuid \<notin>
              snd ` set (timers (runBlock (now s + 30000, ExpireDataReply uuid) s')) \<and>
            replyToMessageData decode uuid b (runBlock (now s + 30000, ExpireDataReply uuid) s') =
              (False, runBlock (now s + 30000, ExpireDataReply uuid) s')))) \<and>
   invoked (runBlock entry s) = invoked s \<and> events (runBlock entry s) = events s"
proof -
  have tm: "timers (dispatchMessageReceived m (Some cb) uuid s) =
      timers s @ [(now s + 30000, ExpireMessageReply uuid)]"
    by (simp add: dispatchMessageReceived_def sendEvent_def asyncAfter_def)
  have td: "timers (dispatchMessageDataReceived encode bytes (Some cb) uuid s) =
      timers s @ [(now s + 30000, ExpireDataReply uuid)]"
    by (simp add: dispatchMessageDataReceived_def sendEvent_def asyncAfter_def)
  have quiet: "invoked (runBlock entry s) = invoked s \<and> events (runBlock entry s) = events s"
    by (simp add: runBlock_keeps)
  have msg: "ExpireMessageReply uuid \<notin> snd ` set (timers s) \<and>
    list_all (\<lambda>a. \<not> concernsMessage uuid a) acts \<longrightarrow>
      (let s' = run decode encode acts (dispatchMessageReceived m (Some cb) uuid s) in
         (now s' < now s + 30000 \<longrightarrow> ExpireMessageReply uuid \<in> snd ` set (timers s')) \<and>
         (ExpireMessageReply uuid \<in> snd ` set (timers s') \<longrightarrow>
            replyToMessage uuid p s' =
              (True, s'\<lparr>pendingMessageReplies := (pendingMessageReplies s')(uuid := None),
                         invoked := invoked s' @ [MessageReply cb p]\<rparr>)) \<and>
         (ExpireMessageReply uuid \<notin> snd ` set (timers s') \<longrightarrow>
            now s + 30000 \<le> now s' \<and> pendingMessageReplies s' uuid = None \<and>
            replyToMessage uuid p s' = (False, s')) \<and>
         (ExpireMessageReply uuid \<in> snd ` set (timers s') \<and> now s + 30000 \<le> now s' \<longrightarrow>
            pendingMessageReplies (runBlock (now s + 30000, ExpireMessageReply uuid) s') uuid = None \<and>
            ExpireMessageReply uuid \<notin>
              snd ` set (timers (runBlock (now s + 30000, ExpireMessageReply uuid) s')) \<and>
            replyToMessage uuid p (runBlock (now s + 30000, ExpireMessageReply uuid) s') =
              (False, runBlock (now s + 30000, ExpireMessageReply uuid) s')))"
  proof (intro impI)
    assume a: "ExpireMessageReply uuid \<notin> snd ` set (timers s) \<and>
      list_all (\<lambda>a. \<not> concernsMessage uuid a) acts"
    define s' where "s' = run decode encode acts (dispatchMessageReceived m (Some cb) uuid s)"
    have inv: "awaiting pendingMessageReplies (ExpireMessageReply uuid) uuid cb (now s + 30000) s'"
      unfolding s'_def using a by (intro awaiting_message_run awaiting_message_start) simp_all
    show "let s' = run decode encode acts (dispatchMessageReceived m (Some cb) uuid s) in
         (now s' < now s + 30000 \<longrightarrow> ExpireMessageReply uuid \<in> snd ` set (timers s')) \<and>
         (ExpireMessageReply uuid \<in> snd ` set (timers s') \<longrightarrow>
            replyToMessage uuid p s' =
              (True, s'\<lparr>pendingMessageReplies := (pendingMessageReplies s')(uuid := None),
                         invoked := invoked s' @ [MessageReply cb p]\<rparr>)) \<and>
         (ExpireMessageReply uuid \<notin> snd ` set (timers s') \<longrightarrow>
            now s + 30000 \<le> now s' \<and> pendingMessageReplies s' uuid = None \<and>
            replyToMessage uuid p s' = (False, s')) \<and>
         (ExpireMessageReply uuid \<in> snd ` set (timers s') \<and> now s + 30000 \<le> now s' \<longrightarrow>
            pendingMessageReplies (runBlock (now s + 30000, ExpireMessageReply uuid) s') uuid = None \<and>
            ExpireMessageReply uuid \<notin>
              snd ` set (timers (runBlock (now s + 30000, ExpireMessageReply uuid) s')) \<and>
            replyToMessage uuid p (runBlock (now s + 30000, ExpireMessageReply uuid) s') =
              (False, runBlock (now s + 30000, ExpireMessageReply uuid) s'))"
      unfolding Let_def s'_def [symmetric]
      using awaiting_message_facts [OF inv] by blast
  qed
  have dat: "ExpireDataReply uuid \<notin> snd ` set (timers s) \<and>
    list_all (\<lambda>a. \<not> concernsData uuid a) acts \<and> decode b = Some d \<longrightarrow>
      (let s' = run decode encode acts (dispatchMessageDataReceived encode bytes (Some cb) uuid s) in
         (now s' < now s + 30000 \<longrightarrow> ExpireDataReply uuid \<in> snd ` set (timers s')) \<and>
         (ExpireDataReply uuid \<in> snd ` set (timers s') \<longrightarrow>
            replyToMessageData decode uuid b s' =
              (True, s'\<lparr>pendingDataReplies := (pendingDataReplies s')(uuid := None),
                         invoked := invoked s' @ [DataReply cb d]\<rparr>)) \<and>
         (ExpireDataReply uuid \<notin> snd ` set (timers s') \<longrightarrow>
            now s + 30000 \<le> now s' \<and> pendingDataReplies s' uuid = None \<and>
            replyToMessageData decode uuid b s' = (False, s')) \<and>
         (ExpireDataReply uuid \<in> snd ` set (timers s') \<and> now s + 30000 \<le> now s' \<longrightarrow>
            pendingDataReplies (runBlock (now s + 30000, ExpireDataReply uuid) s') uuid = None \<and>
            ExpireDataReply uuid \<notin>
              snd ` set (timers (runBlock (now s + 30000, ExpireDataReply uuid) s')) \<and>
            replyToMessageData decode uuid b (runBlock (now s + 30000, ExpireDataReply uuid) s') =
              (False, runBlock (now s + 30000, ExpireDataReply uuid) s')))"
  proof (intro impI)
    assume a: "ExpireDataReply uuid \<notin> snd ` set (timers s) \<and>
      list_all (\<lambda>a. \<not> concernsData uuid a) acts \<and> decode b = Some d"
    define s' where "s' = run decode encode acts (dispatchMessageDataReceived encode bytes (Some cb) uuid s)"
    have inv: "awaiting pendingDataReplies (ExpireDataReply uuid) uuid cb (now s + 30000) s'"
      unfolding s'_def using a by (intro awaiting_data_run awaiting_data_start) simp_all
    from a have d: "decode b = Some d" by simp
    show "let s' = run decode encode acts (dispatchMessageDataReceived encode bytes (Some cb) uuid s) in
         (now s' < now s + 30000 \<longrightarrow> ExpireDataReply uuid \<in> snd ` set (timers s')) \<and>
         (ExpireDataReply uuid \<in> snd ` set (timers s') \<longrightarrow>
            replyToMessageData decode uuid b s' =
              (True, s'\<lparr>pendingDataReplies := (pendingDataReplies s')(uuid := None),
                         invoked := invoked s' @ [DataReply cb d]\<rparr>)) \<and>
         (ExpireDataReply uuid \<notin> snd ` set (timers s') \<longrightarrow>
            now s + 30000 \<le> now s' \<and> pendingDataReplies s' uuid = None \<and>
            replyToMessageData decode uuid b s' = (False, s')) \<and>
         (ExpireDataReply uuid \<in> snd ` set (timers s') \<and> now s + 30000 \<le> now s' \<longrightarrow>
            pendingDataReplies (runBlock (now s + 30000, ExpireDataReply uuid) s') uuid = None \<and>
            ExpireDataReply uuid \<notin>
              snd ` set (timers (runBlock (now s + 30000, ExpireDataReply uuid) s')) \<and>
            replyToMessageData decode uuid b (runBlock (now s + 30000, ExpireDataReply uuid) s') =
              (False, runBlock (now s + 30000, ExpireDataReply uuid) s'))"
      unfolding Let_def s'_def [symmetric]
      using awaiting_data_facts [where decode = decode and b = b and d = d, OF inv d] by blast
  qed
  from tm td quiet msg dat show ?thesis by blast
qed

theorem expiry_block_ends_entry_witness:
  "fst (replyToMessage ''A'' [(''ack'', AnyBool True)]
     (run base64Decode base64Encode
        [DidReceiveMessage [] (Some 9) ''C'', ClockReaches 29900, ReplyToMessage ''C'' []]
        (dispatchMessageReceived [] (Some 7) ''A'' initial))) \<and>
   fst (replyToMessage ''A'' [(''ack'', AnyBool True)]
     (run base64Decode base64Encode [ClockReaches 30100]
        (dispatchMessageReceived [] (Some 7) ''A'' initial))) \<and>
   replyToMessage ''A'' [(''ack'', AnyBool True)]
     (run base64Decode base64Encode
        [ClockReaches 30000, MainQueueRuns (30000, ExpireMessageReply ''A'')]
        (dispatchMessageReceived [] (Some 7) ''A'' initial)) =
     (False, run base64Decode base64Encode
        [ClockReaches 30000, MainQueueRuns (30000, ExpireMessageReply ''A'')]
        (dispatchMessageReceived [] (Some 7) ''A'' initial)) \<and>
   invoked (run base64Decode base64Encode
        [ClockReaches 30000, MainQueueRuns (30000, ExpireMessageReply ''A'')]
        (dispatchMessageReceived [] (Some 7) ''A'' initial)) = [] \<and>
   fst (replyToMessageData base64Decode ''B'' ''aGk=''
     (run base64Decode base64Encode [ClockReaches 29900]
        (dispatchMessageDataReceived base64Encode [1, 2] (Some 8) ''B'' initial))) \<and>
   replyToMessageData base64Decode ''B'' ''aGk=''
     (run base64Decode base64Encode
        [ClockReaches 30000, MainQueueRuns (30000, ExpireDataReply ''B'')]
        (dispatchMessageDataReceived base64Encode [1, 2] (Some 8) ''B'' initial)) =
     (False, run base64Decode base64Encode
        [ClockReaches 30000, MainQueueRuns (30000, ExpireDataReply ''B'')]
        (dispatchMessageDataReceived base64Encode [1, 2] (Some 8) ''B'' initial))"
proof -
  have d: "base64Decode ''aGk='' = Some [104, 105]"
    by (simp add: base64_defs)
  have early: "now (run base64Decode base64Encode
        [DidReceiveMessage [] (Some 9) ''C'', ClockReaches 29900, ReplyToMessage ''C'' []]
        (dispatchMessageReceived [] (Some 7) ''A'' initial)) = 29900"
      "now (run base64Decode base64Encode [ClockReaches 29900]
        (dispatchMessageDataReceived base64Encode [1, 2] (Some 8) ''B'' initial)) = 29900"
    by (simp_all add: run_def module_defs tick_def)
  have late: "timers (run base64Decode base64Encode [ClockReaches 30100]
        (dispatchMessageReceived [] (Some 7) ''A'' initial)) = [(30000, ExpireMessageReply ''A'')]"
    by (simp add: run_def module_defs tick_def)
  have ran: "timers (run base64Decode base64Encode
        [ClockReaches 30000, MainQueueRuns (30000, ExpireMessageReply ''A'')]
        (dispatchMessageReceived [] (Some 7) ''A'' initial)) = []"
      "timers (run base64Decode base64Encode
        [ClockReaches 30000, MainQueueRuns (30000, ExpireDataReply ''B'')]
        (dispatchMessageDataReceived base64Encode [1, 2] (Some 8) ''B'' initial)) = []"
      "invoked (run base64Decode base64Encode
        [ClockReaches 30000, MainQueueRuns (30000, ExpireMessageReply ''A'')]
        (dispatchMessageReceived [] (Some 7) ''A'' initial)) = []"
    by (simp_all add: run_def module_defs tick_def runBlock_def due_def)
  have start: "timers initial = []" "now initial = 0"
    by (simp_all add: initial_def)
  show ?thesis
    using d early late ran start
      expiry_block_ends_entry [where uuid = "''A''" and s = initial and m = "[]" and cb = 7
        and decode = base64Decode and encode = base64Encode
        and p = "[(''ack'', AnyBool True)]"
        and acts = "[DidReceiveMessage [] (Some 9) ''C'', ClockReaches 29900, ReplyToMessage ''C'' []]"]
      expiry_block_ends_entry [where uuid = "''A''" and s = initial and m = "[]" and cb = 7
        and decode = base64Decode and encode = base64Encode
        and p = "[(''ack'', AnyBool True)]" and acts = "[ClockReaches 30100]"]
      expiry_block_ends_entry [where uuid = "''A''" and s = initial and m = "[]" and cb = 7
        and decode = base64Decode and encode = base64Encode
        and p = "[(''ack'', AnyBool True)]"
        and acts = "[ClockReaches 30000, MainQueueRuns (30000, ExpireMessageReply ''A'')]"]
      expiry_block_ends_entry [where uuid = "''B''" and s = initial and bytes = "[1, 2]" and cb = 8
        and decode = base64Decode and encode = base64Encode
        and b = "''aGk=''" and d = "[104, 105]" and acts = "[ClockReaches 29900]"]
      expiry_block_ends_entry [where uuid = "''B''" and s = initial and bytes = "[1, 2]" and cb = 8
        and decode = base64Decode and encode = base64Encode
        and b = "''aGk=''" and d = "[104, 105]"
        and acts = "[ClockReaches 30000, MainQueueRuns (30000, ExpireDataReply ''B'')]"]
    by (simp add: Let_def)
qed

subsection \<open>C5: a reply racing the expiry block\<close>

lemma step_remaining: "step w c = Some c' \<Longrightarrow> remaining c = Suc (remaining c')"
  by (cases w)
     (auto simp: step_def remaining_def split: list.splits option.splits prod.splits)

lemma exec_remaining: "exec sched c = Some c' \<Longrightarrow> length sched + remaining c' = remaining c"
proof (induction sched arbitrary: c)
  case Nil
  then show ?case by simp
next
  case (Cons w ws)
  then obtain c1 where s: "step w c = Some c1" and e: "exec ws c1 = Some c'"
    by (auto split: option.splits)
  from Cons.IH [OF e] step_remaining [OF s] show ?case by simp
qed

lemma step_successor: "step w c = Some c' \<Longrightarrow> c' \<in> set (successors c)"
  by (cases w) (auto simp: successors_def List.map_filter_def)

lemma exec_explore: "exec sched c = Some c' \<Longrightarrow> c' \<in> set (explore (length sched) c)"
proof (induction sched arbitrary: c)
  case Nil
  then show ?case by simp
next
  case (Cons w ws)
  then obtain c1 where s: "step w c = Some c1" and e: "exec ws c1 = Some c'"
    by (auto split: option.splits)
  from Cons.IH [OF e] step_successor [OF s] show ?case by auto
qed

lemma explore_head: "c \<in> set (explore n c)"
  by (cases n) simp_all

lemma explore_mono: "set (explore n c) \<subseteq> set (explore (n + k) c)"
proof (induction n arbitrary: c)
  case 0
  show ?case by (simp add: explore_head)
next
  case (Suc n)
  show ?case using Suc.IH by auto
qed

lemma exec_explore_remaining:
  assumes "exec sched c = Some c'"
  shows "c' \<in> set (explore (remaining c) c)"
proof -
  from exec_remaining [OF assms] have "remaining c = length sched + remaining c'" by simp
  with explore_mono [of "length sched" c "remaining c'"] exec_explore [OF assms]
  show ?thesis by auto
qed

lemmas thread_defs =
  start_def replyStatements_def replyDataStatements_def step_def successors_def
  List.map_filter_def finished_def inCritical_def remaining_def removeValue_def
  replyToMessage_def replyToMessageData_def

lemma message_race_explored:
  assumes "pendingMessageReplies s i = Some cb"
  shows "list_all (\<lambda>c'.
           \<not> (inCritical (js c') \<and> inCritical (main c')) \<and>
           (finished c' \<longrightarrow>
              removed (js c') = Some cb \<and> removed (main c') = None \<and>
              shared c' = runExpiry (ExpireMessageReply i) (snd (replyToMessage i p s)) \<and>
              invoked (shared c') = invoked s @ [MessageReply cb p] \<or>
              removed (main c') = Some cb \<and> removed (js c') = None \<and>
              shared c' = snd (replyToMessage i p (runExpiry (ExpireMessageReply i) s)) \<and>
              invoked (shared c') = invoked s))
         (explore 7 (start s (replyStatements i p) (expiryStatements (ExpireMessageReply i))))"
  using assms by (simp add: thread_defs eval_nat_numeral)

lemma data_race_explored:
  assumes "pendingDataReplies s j = Some cd" and "decode b = Some d"
  shows "list_all (\<lambda>c'.
           \<not> (inCritical (js c') \<and> inCritical (main c')) \<and>
           (finished c' \<longrightarrow>
              removed (js c') = Some cd \<and> removed (main c') = None \<and>
              shared c' = runExpiry (ExpireDataReply j) (snd (replyToMessageData decode j b s)) \<and>
              invoked (shared c') = invoked s @ [DataReply cd d] \<or>
              removed (main c') = Some cd \<and> removed (js c') = None \<and>
              shared c' = snd (replyToMessageData decode j b (runExpiry (ExpireDataReply j) s)) \<and>
              invoked (shared c') = invoked s))
         (explore 7 (start s (replyDataStatements decode j b) (expiryStatements (ExpireDataReply j))))"
  using assms by (simp add: thread_defs eval_nat_numeral)

lemma message_race_orders:
  assumes "pendingMessageReplies s i = Some cb"
  shows "\<exists>c'. exec [JS, JS, JS, JS, Main, Main, Main]
                (start s (replyStatements i p) (expiryStatements (ExpireMessageReply i))) = Some c' \<and>
              finished c' \<and> removed (js c') = Some cb"
    and "\<exists>c'. exec [Main, Main, Main, JS, JS, JS, JS]
                (start s (replyStatements i p) (expiryStatements (ExpireMessageReply i))) = Some c' \<and>
              finished c' \<and> removed (main c') = Some cb"
  using assms by (simp_all add: thread_defs)

lemma data_race_orders:
  assumes "pendingDataReplies s j = Some cd" and "decode b = Some d"
  shows "\<exists>c'. exec [JS, JS, JS, JS, Main, Main, Main]
                (start s (replyDataStatements decode j b) (expiryStatements (ExpireDataReply j))) = Some c' \<and>
              finished c' \<and> removed (js c') = Some cd"
    and "\<exists>c'. exec [Main, Main, Main, JS, JS, JS, JS]
                (start s (replyDataStatements decode j b) (expiryStatements (ExpireDataReply j))) = Some c' \<and>
              finished c' \<and> removed (main c') = Some cd"
  using assms by (simp_all add: thread_defs)

lemma message_race_all:
  assumes p: "pendingMessageReplies s i = Some cb"
    and e: "exec sched (start s (replyStatements i p) (expiryStatements (ExpireMessageReply i))) = Some c'"
  shows "\<not> (inCritical (js c') \<and> inCritical (main c')) \<and>
           (finished c' \<longrightarrow>
              removed (js c') = Some cb \<and> removed (main c') = None \<and>
              shared c' = runExpiry (ExpireMessageReply i) (snd (replyToMessage i p s)) \<and>
              invoked (shared c') = invoked s @ [MessageReply cb p] \<or>
              removed (main c') = Some cb \<and> removed (js c') = None \<and>
              shared c' = snd (replyToMessage i p (runExpiry (ExpireMessageReply i) s)) \<and>
              invoked (shared c') = invoked s)"
proof -
  have r: "remaining (start s (replyStatements i p) (expiryStatements (ExpireMessageReply i))) = 7"
    by (simp add: remaining_def start_def replyStatements_def)
  from exec_explore_remaining [OF e] r
  have "c' \<in> set (explore 7 (start s (replyStatements i p) (expiryStatements (ExpireMessageReply i))))"
    by simp
  with message_race_explored [OF p, of p] show ?thesis
    unfolding list_all_iff by blast
qed

lemma data_race_all:
  assumes p: "pendingDataReplies s j = Some cd" and d: "decode b = Some d"
    and e: "exec sched (start s (replyDataStatements decode j b) (expiryStatements (ExpireDataReply j))) = Some c'"
  shows "\<not> (inCritical (js c') \<and> inCritical (main c')) \<and>
           (finished c' \<longrightarrow>
              removed (js c') = Some cd \<and> removed (main c') = None \<and>
              shared c' = runExpiry (ExpireDataReply j) (snd (replyToMessageData decode j b s)) \<and>
              invoked (shared c') = invoked s @ [DataReply cd d] \<or>
              removed (main c') = Some cd \<and> removed (js c') = None \<and>
              shared c' = snd (replyToMessageData decode j b (runExpiry (ExpireDataReply j) s)) \<and>
              invoked (shared c') = invoked s)"
proof -
  have r: "remaining (start s (replyDataStatements decode j b) (expiryStatements (ExpireDataReply j))) = 7"
    using d by (simp add: remaining_def start_def replyDataStatements_def)
  from exec_explore_remaining [OF e] r
  have "c' \<in> set (explore 7 (start s (replyDataStatements decode j b) (expiryStatements (ExpireDataReply j))))"
    by simp
  with data_race_explored [where decode = decode and b = b and d = d, OF p d] show ?thesis
    unfolding list_all_iff by blast
qed

text \<open>
  C5. Let the JavaScript thread execute \<open>replyToMessage\<close> for a pending id while the main
  queue executes the expiry block of the same id, statement by statement, in any order
  the scheduler and \<open>replyLock\<close> allow. At every moment at most one of the two threads
  is between its \<open>lock()\<close> and its \<open>unlock()\<close>. When both have finished, exactly one
  \<open>removeValue\<close> has found the handler and the other has found nothing, and the state is
  that of one of the two serial orders of \<open>replyToMessage\<close> and the expiry block: the
  handler has been called once (the reply took the lock first) or not at all (the expiry
  block did). Both orders occur. The same holds for \<open>replyToMessageData\<close> with a string
  that decodes.
\<close>

theorem reply_races_expiry:
  "(pendingMessageReplies s i = Some cb \<longrightarrow>
      (\<forall>sched c'.
         exec sched (start s (replyStatements i p) (expiryStatements (ExpireMessageReply i))) = Some c' \<longrightarrow>
           \<not> (inCritical (js c') \<and> inCritical (main c')) \<and>
           (finished c' \<longrightarrow>
              removed (js c') = Some cb \<and> removed (main c') = None \<and>
              shared c' = runExpiry (ExpireMessageReply i) (snd (replyToMessage i p s)) \<and>
              invoked (shared c') = invoked s @ [MessageReply cb p] \<or>
              removed (main c') = Some cb \<and> removed (js c') = None \<and>
              shared c' = snd (replyToMessage i p (runExpiry (ExpireMessageReply i) s)) \<and>
              invoked (shared c') = invoked s)) \<and>
      (\<exists>c'. exec [JS, JS, JS, JS, Main, Main, Main]
                (start s (replyStatements i p) (expiryStatements (ExpireMessageReply i))) = Some c' \<and>
              finished c' \<and> removed (js c') = Some cb) \<and>
      (\<exists>c'. exec [Main, Main, Main, JS, JS, JS, JS]
                (start s (replyStatements i p) (expiryStatements (ExpireMessageReply i))) = Some c' \<and>
              finished c' \<and> removed (main c') = Some cb)) \<and>
   (pendingDataReplies s j = Some cd \<and> decode b = Some d \<longrightarrow>
      (\<forall>sched c'.
         exec sched (start s (replyDataStatements decode j b) (expiryStatements (ExpireDataReply j))) = Some c' \<longrightarrow>
           \<not> (inCritical (js c') \<and> inCritical (main c')) \<and>
           (finished c' \<longrightarrow>
              removed (js c') = Some cd \<and> removed (main c') = None \<and>
              shared c' = runExpiry (ExpireDataReply j) (snd (replyToMessageData decode j b s)) \<and>
              invoked (shared c') = invoked s @ [DataReply cd d] \<or>
              removed (main c') = Some cd \<and> removed (js c') = None \<and>
              shared c' = snd (replyToMessageData decode j b (runExpiry (ExpireDataReply j) s)) \<and>
              invoked (shared c') = invoked s)) \<and>
      (\<exists>c'. exec [JS, JS, JS, JS, Main, Main, Main]
                (start s (replyDataStatements decode j b) (expiryStatements (ExpireDataReply j))) = Some c' \<and>
              finished c' \<and> removed (js c') = Some cd) \<and>
      (\<exists>c'. exec [Main, Main, Main, JS, JS, JS, JS]
                (start s (replyDataStatements decode j b) (expiryStatements (ExpireDataReply j))) = Some c' \<and>
              finished c' \<and> removed (main c') = Some cd))"
proof -
  have msg: "pendingMessageReplies s i = Some cb \<Longrightarrow>
      exec sched (start s (replyStatements i p) (expiryStatements (ExpireMessageReply i))) = Some c' \<Longrightarrow>
           \<not> (inCritical (js c') \<and> inCritical (main c')) \<and>
           (finished c' \<longrightarrow>
              removed (js c') = Some cb \<and> removed (main c') = None \<and>
              shared c' = runExpiry (ExpireMessageReply i) (snd (replyToMessage i p s)) \<and>
              invoked (shared c') = invoked s @ [MessageReply cb p] \<or>
              removed (main c') = Some cb \<and> removed (js c') = None \<and>
              shared c' = snd (replyToMessage i p (runExpiry (ExpireMessageReply i) s)) \<and>
              invoked (shared c') = invoked s)" for sched c'
    by (rule message_race_all)
  have dat: "pendingDataReplies s j = Some cd \<and> decode b = Some d \<Longrightarrow>
      exec sched (start s (replyDataStatements decode j b) (expiryStatements (ExpireDataReply j))) = Some c' \<Longrightarrow>
           \<not> (inCritical (js c') \<and> inCritical (main c')) \<and>
           (finished c' \<longrightarrow>
              removed (js c') = Some cd \<and> removed (main c') = None \<and>
              shared c' = runExpiry (ExpireDataReply j) (snd (replyToMessageData decode j b s)) \<and>
              invoked (shared c') = invoked s @ [DataReply cd d] \<or>
              removed (main c') = Some cd \<and> removed (js c') = None \<and>
              shared c' = snd (replyToMessageData decode j b (runExpiry (ExpireDataReply j) s)) \<and>
              invoked (shared c') = invoked s)" for sched c'
    by (rule data_race_all) simp_all
  show ?thesis
    using msg dat message_race_orders [of s i cb p] data_race_orders [of s j cd decode b d]
    by blast
qed

theorem reply_races_expiry_witness:
  "exec [JS, Main]
     (start (dispatchMessageReceived [] (Some 7) ''A'' initial)
        (replyStatements ''A'' []) (expiryStatements (ExpireMessageReply ''A''))) = None \<and>
   removed (js (the (exec [JS, JS, JS, JS, Main, Main, Main]
     (start (dispatchMessageReceived [] (Some 7) ''A'' initial)
        (replyStatements ''A'' []) (expiryStatements (ExpireMessageReply ''A'')))))) = Some 7 \<and>
   invoked (shared (the (exec [JS, JS, JS, JS, Main, Main, Main]
     (start (dispatchMessageReceived [] (Some 7) ''A'' initial)
        (replyStatements ''A'' []) (expiryStatements (ExpireMessageReply ''A'')))))) =
     [MessageReply 7 []] \<and>
   removed (main (the (exec [Main, Main, Main, JS, JS, JS, JS]
     (start (dispatchMessageReceived [] (Some 7) ''A'' initial)
        (replyStatements ''A'' []) (expiryStatements (ExpireMessageReply ''A'')))))) = Some 7 \<and>
   invoked (shared (the (exec [Main, Main, Main, JS, JS, JS, JS]
     (start (dispatchMessageReceived [] (Some 7) ''A'' initial)
        (replyStatements ''A'' []) (expiryStatements (ExpireMessageReply ''A'')))))) = [] \<and>
   removed (js (the (exec [JS, JS, JS, JS, Main, Main, Main]
     (start (dispatchMessageDataReceived base64Encode [1, 2] (Some 8) ''B'' initial)
        (replyDataStatements base64Decode ''B'' ''aGk='')
        (expiryStatements (ExpireDataReply ''B'')))))) = Some 8 \<and>
   invoked (shared (the (exec [JS, JS, JS, JS, Main, Main, Main]
     (start (dispatchMessageDataReceived base64Encode [1, 2] (Some 8) ''B'' initial)
        (replyDataStatements base64Decode ''B'' ''aGk='')
        (expiryStatements (ExpireDataReply ''B'')))))) = [DataReply 8 [104, 105]] \<and>
   removed (main (the (exec [Main, Main, Main, JS, JS, JS, JS]
     (start (dispatchMessageDataReceived base64Encode [1, 2] (Some 8) ''B'' initial)
        (replyDataStatements base64Decode ''B'' ''aGk='')
        (expiryStatements (ExpireDataReply ''B'')))))) = Some 8 \<and>
   invoked (shared (the (exec [Main, Main, Main, JS, JS, JS, JS]
     (start (dispatchMessageDataReceived base64Encode [1, 2] (Some 8) ''B'' initial)
        (replyDataStatements base64Decode ''B'' ''aGk='')
        (expiryStatements (ExpireDataReply ''B'')))))) = []"
proof -
  define sm where "sm = dispatchMessageReceived [] (Some 7) ''A'' initial"
  define sd where "sd = dispatchMessageDataReceived base64Encode [1, 2] (Some 8) ''B'' initial"
  have m: "pendingMessageReplies sm ''A'' = Some 7"
    by (simp add: sm_def module_defs)
  have b: "pendingDataReplies sd ''B'' = Some 8 \<and> base64Decode ''aGk='' = Some [104, 105]"
    by (simp add: sd_def module_defs base64_defs)
  have l: "invoked sm = []" "invoked sd = []"
    by (simp_all add: sm_def sd_def module_defs)
  have blocked: "exec [JS, Main]
     (start sm (replyStatements ''A'' []) (expiryStatements (ExpireMessageReply ''A''))) = None"
    using m by (simp add: thread_defs)
  note race = reply_races_expiry [where s = sm and i = "''A''" and cb = 7 and p = "[]"]
  note raceData = reply_races_expiry [where s = sd and j = "''B''" and cd = 8
      and decode = base64Decode and b = "''aGk=''" and d = "[104, 105]"]
  from race m obtain c1 where c1:
      "exec [JS, JS, JS, JS, Main, Main, Main]
         (start sm (replyStatements ''A'' []) (expiryStatements (ExpireMessageReply ''A''))) = Some c1"
      "finished c1" "removed (js c1) = Some 7"
    by blast
  from race m obtain c2 where c2:
      "exec [Main, Main, Main, JS, JS, JS, JS]
         (start sm (replyStatements ''A'' []) (expiryStatements (ExpireMessageReply ''A''))) = Some c2"
      "finished c2" "removed (main c2) = Some 7"
    by blast
  from raceData b obtain c3 where c3:
      "exec [JS, JS, JS, JS, Main, Main, Main]
         (start sd (replyDataStatements base64Decode ''B'' ''aGk='')
            (expiryStatements (ExpireDataReply ''B''))) = Some c3"
      "finished c3" "removed (js c3) = Some 8"
    by blast
  from raceData b obtain c4 where c4:
      "exec [Main, Main, Main, JS, JS, JS, JS]
         (start sd (replyDataStatements base64Decode ''B'' ''aGk='')
            (expiryStatements (ExpireDataReply ''B''))) = Some c4"
      "finished c4" "removed (main c4) = Some 8"
    by blast
  from race m c1 have i1: "invoked (shared c1) = invoked sm @ [MessageReply 7 []]"
    by (metis option.distinct(1))
  from race m c2 have i2: "invoked (shared c2) = invoked sm"
    by (metis option.distinct(1))
  from raceData b c3 have i3: "invoked (shared c3) = invoked sd @ [DataReply 8 [104, 105]]"
    by (metis option.distinct(1))
  from raceData b c4 have i4: "invoked (shared c4) = invoked sd"
    by (metis option.distinct(1))
  show ?thesis
    unfolding sm_def [symmetric] sd_def [symmetric]
    using blocked c1 c2 c3 c4 i1 i2 i3 i4 l by (simp del: exec.simps)
qed

subsection \<open>C8: teardown\<close>

text \<open>
  C8. \<open>cancelAll\<close> (as the specification describes it) calls no handler and emits no
  event, leaves both dictionaries empty and no queued expiry block of an entry that was
  pending; afterwards a reply with any id, so also with a previously pending one, reports
  \<open>False\<close> and changes nothing, and no handler is called however far the clock advances
  and whatever blocks the main queue runs.
\<close>

theorem cancelAll_clears:
  "invoked (cancelAll s) = invoked s \<and>
   events (cancelAll s) = events s \<and>
   pendingMessageReplies (cancelAll s) = Map.empty \<and>
   pendingDataReplies (cancelAll s) = Map.empty \<and>
   filter (\<lambda>entry. found (snd entry) s) (timers (cancelAll s)) = [] \<and>
   replyToMessage i p (cancelAll s) = (False, cancelAll s) \<and>
   replyToMessageData decode i b (cancelAll s) = (False, cancelAll s) \<and>
   invoked (fold runBlock blocks (tick t (cancelAll s))) = invoked s"
proof -
  have gone: "pendingMessageReplies (cancelAll s) i = None" "pendingDataReplies (cancelAll s) i = None"
    by (simp_all add: cancelAll_def)
  have rest: "invoked (cancelAll s) = invoked s" "events (cancelAll s) = events s"
    "pendingMessageReplies (cancelAll s) = Map.empty" "pendingDataReplies (cancelAll s) = Map.empty"
    "filter (\<lambda>entry. found (snd entry) s) (timers (cancelAll s)) = []"
    by (simp_all add: cancelAll_def)
  show ?thesis
    using gone rest
    by (simp add: replyToMessage_absent replyToMessageData_absent runBlocks_keep tick_keeps)
qed

theorem cancelAll_clears_witness:
  "pendingMessageReplies (dispatchMessageDataReceived base64Encode [1, 2] (Some 8) ''B''
        (dispatchMessageReceived [] (Some 7) ''A'' initial)) ''A'' = Some 7 \<and>
   pendingDataReplies (dispatchMessageDataReceived base64Encode [1, 2] (Some 8) ''B''
        (dispatchMessageReceived [] (Some 7) ''A'' initial)) ''B'' = Some 8 \<and>
   invoked (cancelAll (dispatchMessageDataReceived base64Encode [1, 2] (Some 8) ''B''
        (dispatchMessageReceived [] (Some 7) ''A'' initial))) = [] \<and>
   timers (cancelAll (dispatchMessageDataReceived base64Encode [1, 2] (Some 8) ''B''
        (dispatchMessageReceived [] (Some 7) ''A'' initial))) = [] \<and>
   fst (replyToMessage ''A'' [] (cancelAll (dispatchMessageDataReceived base64Encode [1, 2] (Some 8) ''B''
        (dispatchMessageReceived [] (Some 7) ''A'' initial)))) = False \<and>
   fst (replyToMessageData base64Decode ''B'' ''aGk=''
        (cancelAll (dispatchMessageDataReceived base64Encode [1, 2] (Some 8) ''B''
        (dispatchMessageReceived [] (Some 7) ''A'' initial)))) = False \<and>
   invoked (fold runBlock [(30000, ExpireMessageReply ''A''), (30000, ExpireDataReply ''B'')]
      (tick 60000 (cancelAll (dispatchMessageDataReceived base64Encode [1, 2] (Some 8) ''B''
        (dispatchMessageReceived [] (Some 7) ''A'' initial))))) = []"
proof -
  have l: "invoked (dispatchMessageDataReceived base64Encode [1, 2] (Some 8) ''B''
        (dispatchMessageReceived [] (Some 7) ''A'' initial)) = []"
    "pendingMessageReplies (dispatchMessageDataReceived base64Encode [1, 2] (Some 8) ''B''
        (dispatchMessageReceived [] (Some 7) ''A'' initial)) ''A'' = Some 7"
    "pendingDataReplies (dispatchMessageDataReceived base64Encode [1, 2] (Some 8) ''B''
        (dispatchMessageReceived [] (Some 7) ''A'' initial)) ''B'' = Some 8"
    by (simp_all add: module_defs)
  have t: "timers (cancelAll (dispatchMessageDataReceived base64Encode [1, 2] (Some 8) ''B''
        (dispatchMessageReceived [] (Some 7) ''A'' initial))) = []"
    by (simp add: cancelAll_def module_defs)
  show ?thesis
    using l t
      cancelAll_clears [of "dispatchMessageDataReceived base64Encode [1, 2] (Some 8) ''B''
        (dispatchMessageReceived [] (Some 7) ''A'' initial)" "''A''" "[]" base64Decode "''aGk=''"
        "[(30000, ExpireMessageReply ''A''), (30000, ExpireDataReply ''B'')]" 60000]
      cancelAll_clears [of "dispatchMessageDataReceived base64Encode [1, 2] (Some 8) ''B''
        (dispatchMessageReceived [] (Some 7) ''A'' initial)" "''B''" "[]" base64Decode "''aGk=''"
        "[(30000, ExpireMessageReply ''A''), (30000, ExpireDataReply ''B'')]" 60000]
    by simp
qed

subsection \<open>C4: the reply ids handed out\<close>








end
